theory Spec2Isabelle
  imports Main "HOL-Library.Sublist" "HOL-Library.Monad_Syntax"
begin

section \<open>Text\<close>

text \<open>
  A Python \<^verbatim>\<open>str\<close> is a sequence of Unicode code points; it is modelled as a list of
  natural numbers, one per code point. \<open>lit\<close> embeds an ASCII literal; the few non-ASCII
  characters of the templates are written as code points.
\<close>

type_synonym str = "nat list"

definition lit :: "string \<Rightarrow> str" where
  "lit cs = map of_char cs"

text \<open>Truthiness of a string or a list, as \<^verbatim>\<open>if x\<close> tests it in Python and in Jinja2.\<close>

definition truthy :: "'a list \<Rightarrow> bool" where
  "truthy xs = (xs \<noteq> [])"

text \<open>\<^verbatim>\<open>a or b\<close>: the left operand when it is truthy, the right one otherwise.\<close>

definition py_or :: "'a list \<Rightarrow> 'a list \<Rightarrow> 'a list" where
  "py_or a b = (if truthy a then a else b)"

text \<open>
  The characters \<^verbatim>\<open>str.strip()\<close> removes: the code points Python classifies as
  whitespace (\<^verbatim>\<open>str.isspace\<close>).
\<close>

definition isspace :: "nat \<Rightarrow> bool" where
  "isspace c = (c \<in> set ([0x09, 0x0A, 0x0B, 0x0C, 0x0D, 0x1C, 0x1D, 0x1E, 0x1F, 0x20, 0x85, 0xA0,
      0x1680, 0x2000, 0x2001, 0x2002, 0x2003, 0x2004, 0x2005, 0x2006, 0x2007, 0x2008, 0x2009,
      0x200A, 0x2028, 0x2029, 0x202F, 0x205F, 0x3000]))"

definition strip :: "str \<Rightarrow> str" where
  "strip s = rev (dropWhile isspace (rev (dropWhile isspace s)))"

text \<open>\<^verbatim>\<open>sep.join(xs)\<close>.\<close>

fun py_join :: "str \<Rightarrow> str list \<Rightarrow> str" where
  "py_join sep [] = []"
| "py_join sep [x] = x"
| "py_join sep (x # y # ys) = x @ sep @ py_join sep (y # ys)"

text \<open>
  \<^verbatim>\<open>s.split("\n")\<close>: the pieces between the separators, empty pieces included; the
  empty string gives one empty piece.
\<close>

fun py_split :: "nat \<Rightarrow> str \<Rightarrow> str list" where
  "py_split sep [] = [[]]"
| "py_split sep (c # cs) =
     (if c = sep then [] # py_split sep cs
      else (case py_split sep cs of
              [] \<Rightarrow> [[c]]
            | w # ws \<Rightarrow> (c # w) # ws))"

section \<open>Data model\<close>

text \<open>The dictionaries both programs build, with the keys the templates read.\<close>

record JobEntry =
  title :: str
  company :: str
  start_date :: str
  end_date :: str
  location :: str
  responsibilities :: "str list"

record EducationEntry =
  degree :: str
  institution :: str
  start_date :: str
  end_date :: str
  location :: str
  details :: str

record ProjectEntry =
  name :: str
  link :: str
  description :: str
  points :: "str list"

record ResumeRecord =
  name :: str
  tagline :: str
  email :: str
  phone :: str
  location :: str
  linkedin :: str
  github :: str
  summary :: str
  experience :: "JobEntry list"
  education :: "EducationEntry list"
  projects :: "ProjectEntry list"
  skills :: "str list"
  strengths :: "str list"

section \<open>The template of resume.py\<close>

text \<open>
  \<^verbatim>\<open>Template(TEMPLATE)\<close> is built with the defaults of Jinja2: no autoescaping, no
  whitespace trimming, and the single newline that ends the template source dropped.
  \<^verbatim>\<open>{{ e }}\<close> writes the value of \<open>e\<close> as it is, \<^verbatim>\<open>{% if e %}\<close> tests its
  truthiness, \<^verbatim>\<open>{% for x in xs %}\<close> writes its body once per element, in order.
\<close>

definition CSS :: str where
  \<open>CSS =
    lit ''\<newline>body { font-family: -apple-system, Roboto, 'Segoe UI', Arial, sans-serif; margin: 0; padding: 20px; color: #222 }'' @
    lit ''\<newline>.container { max-width: 800px; margin: auto; background: #fff; padding: 28px; box-shadow: 0 2px 6px rgba(0,0,0,0.06) }'' @
    lit ''\<newline>.header { display: flex; justify-content: space-between; align-items: center }'' @
    lit ''\<newline>.name { font-size: 28px; font-weight: 700 }'' @
    lit ''\<newline>.contact { text-align: right; font-size: 14px }'' @
    lit ''\<newline>.section { margin-top: 18px }'' @
    lit ''\<newline>.section h2 { font-size: 16px; margin-bottom: 8px; border-bottom: 1px solid #eee; padding-bottom: 6px }'' @
    lit ''\<newline>.skill, .strength { display: block; margin-bottom: 6px; font-size: 14px }'' @
    lit ''\<newline>.job, .education, .project { margin-bottom: 12px }'' @
    lit ''\<newline>.job .title, .project .title { font-weight: 600 }'' @
    lit ''\<newline>.job .meta, .project .meta { color: #666; font-size: 13px }'' @
    lit ''\<newline>.summary { white-space: pre-wrap }'' @
    lit ''\<newline>''\<close>

definition tagline_part :: "ResumeRecord \<Rightarrow> str" where
  \<open>tagline_part d =
    (if truthy (tagline d) then
       lit ''<div>'' @
       tagline d @
       lit ''</div>''
     else [])\<close>

definition email_part :: "ResumeRecord \<Rightarrow> str" where
  \<open>email_part d =
    (if truthy (email d) then
       email d @
       lit ''<br>''
     else [])\<close>

definition phone_part :: "ResumeRecord \<Rightarrow> str" where
  \<open>phone_part d =
    (if truthy (phone d) then
       phone d @
       lit ''<br>''
     else [])\<close>

definition location_part :: "ResumeRecord \<Rightarrow> str" where
  \<open>location_part d =
    (if truthy (ResumeRecord.location d) then
       ResumeRecord.location d @
       lit ''<br>''
     else [])\<close>

definition linkedin_part :: "ResumeRecord \<Rightarrow> str" where
  \<open>linkedin_part d =
    (if truthy (linkedin d) then
       lit ''LinkedIn: '' @
       linkedin d @
       lit ''<br>''
     else [])\<close>

definition github_part :: "ResumeRecord \<Rightarrow> str" where
  \<open>github_part d =
    (if truthy (github d) then
       lit ''GitHub: '' @
       github d
     else [])\<close>

definition summary_section :: "ResumeRecord \<Rightarrow> str" where
  \<open>summary_section d =
    (if truthy (summary d) then
       lit ''\<newline>    '' @
       lit ''<div class="section">'' @
       lit ''\<newline>      '' @
       lit ''<h2>Summary</h2>'' @
       lit ''\<newline>      '' @
       lit ''<div class="summary">'' @
       summary d @
       lit ''</div>'' @
       lit ''\<newline>    '' @
       lit ''</div>'' @
       lit ''\<newline>    ''
     else [])\<close>

definition responsibility_item :: "str \<Rightarrow> str" where
  \<open>responsibility_item r =
    lit ''\<newline>          '' @
    lit ''<li>'' @
    r @
    lit ''</li>'' @
    lit ''\<newline>          ''\<close>

definition job_item :: "JobEntry \<Rightarrow> str" where
  \<open>job_item job =
    lit ''\<newline>      '' @
    lit ''<div class="job">'' @
    lit ''\<newline>        '' @
    lit ''<div class="title">'' @
    title job @
    lit '' '' @
    [0xE2, 0x20AC, 0x201D] @
    lit '' '' @
    company job @
    lit ''</div>'' @
    lit ''\<newline>        '' @
    lit ''<div class="meta">'' @
    JobEntry.start_date job @
    lit '' '' @
    [0xE2, 0x20AC, 0x201D] @
    lit '' '' @
    py_or (JobEntry.end_date job) (lit ''Present'') @
    lit '' '' @
    [0xC2, 0xB7] @
    lit '' '' @
    py_or (JobEntry.location job) [] @
    lit ''</div>'' @
    lit ''\<newline>        '' @
    (if truthy (responsibilities job) then
         lit ''\<newline>        '' @
         lit ''<ul>'' @
         lit ''\<newline>          '' @
         concat (map responsibility_item (responsibilities job)) @
         lit ''\<newline>        '' @
         lit ''</ul>'' @
         lit ''\<newline>        ''
     else []) @
    lit ''\<newline>      '' @
    lit ''</div>'' @
    lit ''\<newline>      ''\<close>

definition experience_section :: "ResumeRecord \<Rightarrow> str" where
  \<open>experience_section d =
    (if truthy (experience d) then
       lit ''\<newline>    '' @
       lit ''<div class="section">'' @
       lit ''\<newline>      '' @
       lit ''<h2>Experience</h2>'' @
       lit ''\<newline>      '' @
       concat (map job_item (experience d)) @
       lit ''\<newline>    '' @
       lit ''</div>'' @
       lit ''\<newline>    ''
     else [])\<close>

definition education_item :: "EducationEntry \<Rightarrow> str" where
  \<open>education_item e =
    lit ''\<newline>      '' @
    lit ''<div class="education">'' @
    lit ''\<newline>        '' @
    lit ''<div class="title">'' @
    degree e @
    lit '' '' @
    [0xE2, 0x20AC, 0x201D] @
    lit '' '' @
    institution e @
    lit ''</div>'' @
    lit ''\<newline>        '' @
    lit ''<div class="meta">'' @
    EducationEntry.start_date e @
    lit '' '' @
    [0xE2, 0x20AC, 0x201D] @
    lit '' '' @
    py_or (EducationEntry.end_date e) [] @
    lit '' '' @
    [0xC2, 0xB7] @
    lit '' '' @
    py_or (EducationEntry.location e) [] @
    lit ''</div>'' @
    lit ''\<newline>        '' @
    (if truthy (details e) then
         lit ''<div>'' @
         details e @
         lit ''</div>''
     else []) @
    lit ''\<newline>      '' @
    lit ''</div>'' @
    lit ''\<newline>      ''\<close>

definition education_section :: "ResumeRecord \<Rightarrow> str" where
  \<open>education_section d =
    (if truthy (education d) then
       lit ''\<newline>    '' @
       lit ''<div class="section">'' @
       lit ''\<newline>      '' @
       lit ''<h2>Education</h2>'' @
       lit ''\<newline>      '' @
       concat (map education_item (education d)) @
       lit ''\<newline>    '' @
       lit ''</div>'' @
       lit ''\<newline>    ''
     else [])\<close>

definition point_item :: "str \<Rightarrow> str" where
  \<open>point_item pt =
    lit ''\<newline>          '' @
    lit ''<li>'' @
    pt @
    lit ''</li>'' @
    lit ''\<newline>          ''\<close>

definition project_item :: "ProjectEntry \<Rightarrow> str" where
  \<open>project_item p =
    lit ''\<newline>      '' @
    lit ''<div class="project">'' @
    lit ''\<newline>        '' @
    lit ''<div class="title">'' @
    ProjectEntry.name p @
    lit ''</div>'' @
    lit ''\<newline>        '' @
    (if truthy (link p) then
         lit ''<div class="meta">'' @
         link p @
         lit ''</div>''
     else []) @
    lit ''\<newline>        '' @
    (if truthy (description p) then
         lit ''<div>'' @
         description p @
         lit ''</div>''
     else []) @
    lit ''\<newline>        '' @
    (if truthy (points p) then
         lit ''\<newline>        '' @
         lit ''<ul>'' @
         lit ''\<newline>          '' @
         concat (map point_item (points p)) @
         lit ''\<newline>        '' @
         lit ''</ul>'' @
         lit ''\<newline>        ''
     else []) @
    lit ''\<newline>      '' @
    lit ''</div>'' @
    lit ''\<newline>      ''\<close>

definition projects_section :: "ResumeRecord \<Rightarrow> str" where
  \<open>projects_section d =
    (if truthy (projects d) then
       lit ''\<newline>    '' @
       lit ''<div class="section">'' @
       lit ''\<newline>      '' @
       lit ''<h2>Projects</h2>'' @
       lit ''\<newline>      '' @
       concat (map project_item (projects d)) @
       lit ''\<newline>    '' @
       lit ''</div>'' @
       lit ''\<newline>    ''
     else [])\<close>

definition skill_item :: "str \<Rightarrow> str" where
  \<open>skill_item skill =
    lit ''\<newline>        '' @
    lit ''<li>'' @
    skill @
    lit ''</li>'' @
    lit ''\<newline>      ''\<close>

definition skills_section :: "ResumeRecord \<Rightarrow> str" where
  \<open>skills_section d =
    (if truthy (skills d) then
       lit ''\<newline>    '' @
       lit ''<div class="section">'' @
       lit ''\<newline>      '' @
       lit ''<h2>Skills</h2>'' @
       lit ''\<newline>      '' @
       lit ''<ul>'' @
       lit ''\<newline>      '' @
       concat (map skill_item (skills d)) @
       lit ''\<newline>      '' @
       lit ''</ul>'' @
       lit ''\<newline>    '' @
       lit ''</div>'' @
       lit ''\<newline>    ''
     else [])\<close>

definition strength_item :: "str \<Rightarrow> str" where
  \<open>strength_item s =
    lit ''\<newline>        '' @
    lit ''<li>'' @
    s @
    lit ''</li>'' @
    lit ''\<newline>        ''\<close>

definition strengths_section :: "ResumeRecord \<Rightarrow> str" where
  \<open>strengths_section d =
    (if truthy (strengths d) then
       lit ''\<newline>    '' @
       lit ''<div class="section">'' @
       lit ''\<newline>      '' @
       lit ''<h2>Strengths</h2>'' @
       lit ''\<newline>      '' @
       lit ''<ul>'' @
       lit ''\<newline>        '' @
       concat (map strength_item (strengths d)) @
       lit ''\<newline>      '' @
       lit ''</ul>'' @
       lit ''\<newline>    '' @
       lit ''</div>'' @
       lit ''\<newline>    ''
     else [])\<close>

definition TEMPLATE_render :: "str \<Rightarrow> str \<Rightarrow> ResumeRecord \<Rightarrow> str" where
  \<open>TEMPLATE_render css generated_on d =
    lit ''\<newline>'' @
    lit ''<!doctype html>'' @
    lit ''\<newline>'' @
    lit ''<html>'' @
    lit ''\<newline>'' @
    lit ''<head>'' @
    lit ''\<newline>  '' @
    lit ''<meta charset="utf-8">'' @
    lit ''\<newline>  '' @
    lit ''<meta name="viewport" content="width=device-width,initial-scale=1">'' @
    lit ''\<newline>  '' @
    lit ''<title>'' @
    ResumeRecord.name d @
    lit '' - Resume</title>'' @
    lit ''\<newline>  '' @
    lit ''<style>'' @
    css @
    lit ''</style>'' @
    lit ''\<newline>'' @
    lit ''</head>'' @
    lit ''\<newline>'' @
    lit ''<body>'' @
    lit ''\<newline>  '' @
    lit ''<div class="container">'' @
    lit ''\<newline>    '' @
    lit ''<div class="header">'' @
    lit ''\<newline>      '' @
    lit ''<div>'' @
    lit ''\<newline>        '' @
    lit ''<div class="name">'' @
    ResumeRecord.name d @
    lit ''</div>'' @
    lit ''\<newline>        '' @
    tagline_part d @
    lit ''\<newline>      '' @
    lit ''</div>'' @
    lit ''\<newline>      '' @
    lit ''<div class="contact">'' @
    lit ''\<newline>        '' @
    email_part d @
    lit ''\<newline>        '' @
    phone_part d @
    lit ''\<newline>        '' @
    location_part d @
    lit ''\<newline>        '' @
    linkedin_part d @
    lit ''\<newline>        '' @
    github_part d @
    lit ''\<newline>      '' @
    lit ''</div>'' @
    lit ''\<newline>    '' @
    lit ''</div>'' @
    lit ''\<newline>'' @
    lit ''\<newline>    '' @
    summary_section d @
    lit ''\<newline>'' @
    lit ''\<newline>    '' @
    experience_section d @
    lit ''\<newline>'' @
    lit ''\<newline>    '' @
    education_section d @
    lit ''\<newline>'' @
    lit ''\<newline>    '' @
    projects_section d @
    lit ''\<newline>'' @
    lit ''\<newline>    '' @
    skills_section d @
    lit ''\<newline>'' @
    lit ''\<newline>    '' @
    strengths_section d @
    lit ''\<newline>'' @
    lit ''\<newline>    '' @
    lit ''<div style="margin-top:20px; font-size:12px; color:#888">Generated on '' @
    generated_on @
    lit ''</div>'' @
    lit ''\<newline>  '' @
    lit ''</div>'' @
    lit ''\<newline>'' @
    lit ''</body>'' @
    lit ''\<newline>'' @
    lit ''</html>''\<close>

section \<open>The template of resume1.py\<close>

definition CSS1 :: str where
  \<open>CSS1 =
    lit ''\<newline>body {'' @
    lit ''\<newline>  font-family: -apple-system, Roboto, 'Segoe UI', Arial, sans-serif;'' @
    lit ''\<newline>  margin: 0;'' @
    lit ''\<newline>  padding: 0;'' @
    lit ''\<newline>  color: #222;'' @
    lit ''\<newline>}'' @
    lit ''\<newline>.container {'' @
    lit ''\<newline>  display: flex;'' @
    lit ''\<newline>  width: 100%;'' @
    lit ''\<newline>  min-height: 100vh;'' @
    lit ''\<newline>}'' @
    lit ''\<newline>.sidebar {'' @
    lit ''\<newline>  width: 30%;'' @
    lit ''\<newline>  background: #0056A0;'' @
    lit ''\<newline>  color: white;'' @
    lit ''\<newline>  padding: 20px;'' @
    lit ''\<newline>}'' @
    lit ''\<newline>.sidebar h2 {'' @
    lit ''\<newline>  border-bottom: 1px solid rgba(255,255,255,0.3);'' @
    lit ''\<newline>  padding-bottom: 6px;'' @
    lit ''\<newline>  font-size: 16px;'' @
    lit ''\<newline>}'' @
    lit ''\<newline>.sidebar ul {'' @
    lit ''\<newline>  list-style: none;'' @
    lit ''\<newline>  padding-left: 10px;'' @
    lit ''\<newline>}'' @
    lit ''\<newline>.sidebar ul li::before {'' @
    lit ''\<newline>  content: "'' @
    [0x27A4] @
    lit '' ";'' @
    lit ''\<newline>  color: #fff;'' @
    lit ''\<newline>  font-weight: bold;'' @
    lit ''\<newline>}'' @
    lit ''\<newline>.main {'' @
    lit ''\<newline>  width: 70%;'' @
    lit ''\<newline>  background: #fff;'' @
    lit ''\<newline>  padding: 28px;'' @
    lit ''\<newline>}'' @
    lit ''\<newline>.main h2 {'' @
    lit ''\<newline>  font-size: 16px;'' @
    lit ''\<newline>  border-bottom: 1px solid #eee;'' @
    lit ''\<newline>  margin-bottom: 8px;'' @
    lit ''\<newline>  padding-bottom: 6px;'' @
    lit ''\<newline>}'' @
    lit ''\<newline>.main ul {'' @
    lit ''\<newline>  list-style: none;'' @
    lit ''\<newline>  padding-left: 16px;'' @
    lit ''\<newline>}'' @
    lit ''\<newline>.main ul li::before {'' @
    lit ''\<newline>  content: "'' @
    [0x27A4] @
    lit '' ";'' @
    lit ''\<newline>  color: #0056A0;'' @
    lit ''\<newline>  font-weight: bold;'' @
    lit ''\<newline>}'' @
    lit ''\<newline>.title {'' @
    lit ''\<newline>  font-weight: bold;'' @
    lit ''\<newline>}'' @
    lit ''\<newline>''\<close>

definition email_part1 :: "ResumeRecord \<Rightarrow> str" where
  \<open>email_part1 d =
    (if truthy (email d) then
       lit ''<div>'' @
       email d @
       lit ''</div>''
     else [])\<close>

definition phone_part1 :: "ResumeRecord \<Rightarrow> str" where
  \<open>phone_part1 d =
    (if truthy (phone d) then
       lit ''<div>'' @
       phone d @
       lit ''</div>''
     else [])\<close>

definition location_part1 :: "ResumeRecord \<Rightarrow> str" where
  \<open>location_part1 d =
    (if truthy (ResumeRecord.location d) then
       lit ''<div>'' @
       ResumeRecord.location d @
       lit ''</div>''
     else [])\<close>

definition linkedin_part1 :: "ResumeRecord \<Rightarrow> str" where
  \<open>linkedin_part1 d =
    (if truthy (linkedin d) then
       lit ''<div>LinkedIn: '' @
       linkedin d @
       lit ''</div>''
     else [])\<close>

definition github_part1 :: "ResumeRecord \<Rightarrow> str" where
  \<open>github_part1 d =
    (if truthy (github d) then
       lit ''<div>GitHub: '' @
       github d @
       lit ''</div>''
     else [])\<close>

definition skill_item1 :: "str \<Rightarrow> str" where
  \<open>skill_item1 skill =
    lit ''\<newline>        '' @
    lit ''<li>'' @
    skill @
    lit ''</li>'' @
    lit ''\<newline>      ''\<close>

definition skills_section1 :: "ResumeRecord \<Rightarrow> str" where
  \<open>skills_section1 d =
    (if truthy (skills d) then
       lit ''\<newline>    '' @
       lit ''<h2>Skills</h2>'' @
       lit ''\<newline>    '' @
       lit ''<ul>'' @
       lit ''\<newline>      '' @
       concat (map skill_item1 (skills d)) @
       lit ''\<newline>    '' @
       lit ''</ul>'' @
       lit ''\<newline>    ''
     else [])\<close>

definition strength_item1 :: "str \<Rightarrow> str" where
  \<open>strength_item1 s =
    lit ''\<newline>      '' @
    lit ''<li>'' @
    s @
    lit ''</li>'' @
    lit ''\<newline>      ''\<close>

definition strengths_section1 :: "ResumeRecord \<Rightarrow> str" where
  \<open>strengths_section1 d =
    (if truthy (strengths d) then
       lit ''\<newline>    '' @
       lit ''<h2>Strengths</h2>'' @
       lit ''\<newline>    '' @
       lit ''<ul>'' @
       lit ''\<newline>      '' @
       concat (map strength_item1 (strengths d)) @
       lit ''\<newline>    '' @
       lit ''</ul>'' @
       lit ''\<newline>    ''
     else [])\<close>

definition education_item1 :: "EducationEntry \<Rightarrow> str" where
  \<open>education_item1 e =
    lit ''\<newline>      '' @
    lit ''<div><b>'' @
    degree e @
    lit ''</b><br>'' @
    institution e @
    lit ''<br>'' @
    EducationEntry.start_date e @
    lit '' - '' @
    EducationEntry.end_date e @
    lit ''</div>'' @
    lit ''\<newline>    ''\<close>

definition education_section1 :: "ResumeRecord \<Rightarrow> str" where
  \<open>education_section1 d =
    (if truthy (education d) then
       lit ''\<newline>    '' @
       lit ''<h2>Education</h2>'' @
       lit ''\<newline>    '' @
       concat (map education_item1 (education d)) @
       lit ''\<newline>    ''
     else [])\<close>

definition tagline_part1 :: "ResumeRecord \<Rightarrow> str" where
  \<open>tagline_part1 d =
    (if truthy (tagline d) then
       lit ''<p>'' @
       tagline d @
       lit ''</p>''
     else [])\<close>

definition summary_section1 :: "ResumeRecord \<Rightarrow> str" where
  \<open>summary_section1 d =
    (if truthy (summary d) then
       lit ''\<newline>    '' @
       lit ''<h2>Summary</h2>'' @
       lit ''\<newline>    '' @
       lit ''<p>'' @
       summary d @
       lit ''</p>'' @
       lit ''\<newline>    ''
     else [])\<close>

definition responsibility_item1 :: "str \<Rightarrow> str" where
  \<open>responsibility_item1 r =
    lit ''\<newline>          '' @
    lit ''<li>'' @
    r @
    lit ''</li>'' @
    lit ''\<newline>        ''\<close>

definition job_item1 :: "JobEntry \<Rightarrow> str" where
  \<open>job_item1 job =
    lit ''\<newline>      '' @
    lit ''<div>'' @
    lit ''\<newline>        '' @
    lit ''<div class="title">'' @
    title job @
    lit ''</div>'' @
    lit ''\<newline>        '' @
    lit ''<div>'' @
    company job @
    lit '' '' @
    [0xB7] @
    lit '' '' @
    JobEntry.start_date job @
    lit '' '' @
    [0x2014] @
    lit '' '' @
    py_or (JobEntry.end_date job) (lit ''Present'') @
    lit ''</div>'' @
    lit ''\<newline>        '' @
    lit ''<ul>'' @
    lit ''\<newline>        '' @
    concat (map responsibility_item1 (responsibilities job)) @
    lit ''\<newline>        '' @
    lit ''</ul>'' @
    lit ''\<newline>      '' @
    lit ''</div>'' @
    lit ''\<newline>    ''\<close>

definition experience_section1 :: "ResumeRecord \<Rightarrow> str" where
  \<open>experience_section1 d =
    (if truthy (experience d) then
       lit ''\<newline>    '' @
       lit ''<h2>Experience</h2>'' @
       lit ''\<newline>    '' @
       concat (map job_item1 (experience d)) @
       lit ''\<newline>    ''
     else [])\<close>

definition point_item1 :: "str \<Rightarrow> str" where
  \<open>point_item1 pt =
    lit ''\<newline>          '' @
    lit ''<li>'' @
    pt @
    lit ''</li>'' @
    lit ''\<newline>        ''\<close>

definition project_item1 :: "ProjectEntry \<Rightarrow> str" where
  \<open>project_item1 p =
    lit ''\<newline>      '' @
    lit ''<div>'' @
    lit ''\<newline>        '' @
    lit ''<div class="title">'' @
    ProjectEntry.name p @
    lit ''</div>'' @
    lit ''\<newline>        '' @
    (if truthy (description p) then
         lit ''<p>'' @
         description p @
         lit ''</p>''
     else []) @
    lit ''\<newline>        '' @
    lit ''<ul>'' @
    lit ''\<newline>        '' @
    concat (map point_item1 (points p)) @
    lit ''\<newline>        '' @
    lit ''</ul>'' @
    lit ''\<newline>      '' @
    lit ''</div>'' @
    lit ''\<newline>    ''\<close>

definition projects_section1 :: "ResumeRecord \<Rightarrow> str" where
  \<open>projects_section1 d =
    (if truthy (projects d) then
       lit ''\<newline>    '' @
       lit ''<h2>Projects</h2>'' @
       lit ''\<newline>    '' @
       concat (map project_item1 (projects d)) @
       lit ''\<newline>    ''
     else [])\<close>

definition TEMPLATE1_render :: "str \<Rightarrow> ResumeRecord \<Rightarrow> str" where
  \<open>TEMPLATE1_render css d =
    lit ''\<newline>'' @
    lit ''<!doctype html>'' @
    lit ''\<newline>'' @
    lit ''<html>'' @
    lit ''\<newline>'' @
    lit ''<head>'' @
    lit ''\<newline>  '' @
    lit ''<meta charset="utf-8">'' @
    lit ''\<newline>  '' @
    lit ''<meta name="viewport" content="width=device-width,initial-scale=1">'' @
    lit ''\<newline>  '' @
    lit ''<title>'' @
    ResumeRecord.name d @
    lit '' - Resume</title>'' @
    lit ''\<newline>  '' @
    lit ''<style>'' @
    css @
    lit ''</style>'' @
    lit ''\<newline>'' @
    lit ''</head>'' @
    lit ''\<newline>'' @
    lit ''<body>'' @
    lit ''\<newline>'' @
    lit ''<div class="container">'' @
    lit ''\<newline>  '' @
    lit ''<!-- Sidebar -->'' @
    lit ''\<newline>  '' @
    lit ''<div class="sidebar">'' @
    lit ''\<newline>    '' @
    lit ''<h2>Contact</h2>'' @
    lit ''\<newline>    '' @
    email_part1 d @
    lit ''\<newline>    '' @
    phone_part1 d @
    lit ''\<newline>    '' @
    location_part1 d @
    lit ''\<newline>    '' @
    linkedin_part1 d @
    lit ''\<newline>    '' @
    github_part1 d @
    lit ''\<newline>'' @
    lit ''\<newline>    '' @
    skills_section1 d @
    lit ''\<newline>'' @
    lit ''\<newline>    '' @
    strengths_section1 d @
    lit ''\<newline>'' @
    lit ''\<newline>    '' @
    education_section1 d @
    lit ''\<newline>  '' @
    lit ''</div>'' @
    lit ''\<newline>'' @
    lit ''\<newline>  '' @
    lit ''<!-- Main Content -->'' @
    lit ''\<newline>  '' @
    lit ''<div class="main">'' @
    lit ''\<newline>    '' @
    lit ''<h1 class="name">'' @
    ResumeRecord.name d @
    lit ''</h1>'' @
    lit ''\<newline>    '' @
    tagline_part1 d @
    lit ''\<newline>'' @
    lit ''\<newline>    '' @
    summary_section1 d @
    lit ''\<newline>'' @
    lit ''\<newline>    '' @
    experience_section1 d @
    lit ''\<newline>'' @
    lit ''\<newline>    '' @
    projects_section1 d @
    lit ''\<newline>  '' @
    lit ''</div>'' @
    lit ''\<newline>'' @
    lit ''</div>'' @
    lit ''\<newline>'' @
    lit ''</body>'' @
    lit ''\<newline>'' @
    lit ''</html>''\<close>

section \<open>The generation time\<close>

text \<open>
  \<^verbatim>\<open>datetime.utcnow()\<close> reads the clock; the reading is an input of the model. Python
  keeps \<open>1 \<le> year \<le> 9999\<close>, \<open>1 \<le> month \<le> 12\<close>, \<open>1 \<le> day \<le> 31\<close>, \<open>hour < 24\<close> and
  \<open>minute < 60\<close> in every \<^verbatim>\<open>datetime\<close>.
\<close>

record datetime =
  year :: nat
  month :: nat
  day :: nat
  hour :: nat
  minute :: nat

definition valid_datetime :: "datetime \<Rightarrow> bool" where
  "valid_datetime t =
     (1 \<le> year t \<and> year t \<le> 9999 \<and> 1 \<le> month t \<and> month t \<le> 12 \<and>
      1 \<le> day t \<and> day t \<le> 31 \<and> hour t < 24 \<and> minute t < 60)"

fun decimal :: "nat \<Rightarrow> str" where
  "decimal n = (if n < 10 then [48 + n] else decimal (n div 10) @ [48 + n mod 10])"

declare decimal.simps [simp del]

definition zfill :: "nat \<Rightarrow> str \<Rightarrow> str" where
  "zfill w s = replicate (w - length s) 48 @ s"

text \<open>\<^verbatim>\<open>strftime('%Y-%m-%d %H:%M UTC')\<close>: zero-padded decimal fields.\<close>

definition strftime :: "datetime \<Rightarrow> str" where
  "strftime t =
     zfill 4 (decimal (year t)) @ lit ''-'' @ zfill 2 (decimal (month t)) @ lit ''-'' @
     zfill 2 (decimal (day t)) @ lit '' '' @ zfill 2 (decimal (hour t)) @ lit '':'' @
     zfill 2 (decimal (minute t)) @ lit '' UTC''"

text \<open>\<^verbatim>\<open>render_html(data, css=CSS)\<close> of resume.py; \<open>now\<close> is what \<^verbatim>\<open>utcnow()\<close> returns.\<close>

definition render_html :: "datetime \<Rightarrow> ResumeRecord \<Rightarrow> str \<Rightarrow> str" where
  "render_html now data css = TEMPLATE_render css (strftime now) data"

section \<open>The prompt-based collector (resume.py)\<close>

text \<open>
  Standard input is the list of the lines still to be read. \<^verbatim>\<open>input()\<close> returns the
  next line and the rest; at end of input it raises \<^verbatim>\<open>EOFError\<close>, which nothing
  catches: \<open>None\<close>. What the program prints is not modelled.
\<close>

definition input :: "str list \<Rightarrow> (str \<times> str list) option" where
  "input ins = (case ins of [] \<Rightarrow> None | l # rest \<Rightarrow> Some (l, rest))"

text \<open>
  The inner \<^verbatim>\<open>while True\<close> loop that reads responsibilities, project highlights,
  sub-skills and strengths: the four loops of the source differ in their variable names
  only. \<open>acc\<close> is the list appended to.
\<close>

fun bullet_loop :: "str list \<Rightarrow> str list \<Rightarrow> (str list \<times> str list) option" where
  "bullet_loop acc [] = None"
| "bullet_loop acc (r # ins) =
     (if \<not> truthy (strip r) then Some (acc, ins)
      else bullet_loop (acc @ [strip r]) ins)"

lemma input_shorter: "input ins = Some (l, rest) \<Longrightarrow> length rest < length ins"
  by (auto simp: input_def split: list.splits)

lemma bullet_loop_shorter:
  "bullet_loop acc ins = Some (ls, rest) \<Longrightarrow> length rest < length ins"
  by (induction acc ins rule: bullet_loop.induct) (auto split: if_splits)

function experience_loop :: "JobEntry list \<Rightarrow> str list \<Rightarrow> (JobEntry list \<times> str list) option" where
  "experience_loop experience' ins =
     do {
       (title, ins) \<leftarrow> input ins;
       if \<not> truthy (strip title) then Some (experience', ins)
       else do {
         (company, ins) \<leftarrow> input ins;
         (start, ins) \<leftarrow> input ins;
         (end, ins) \<leftarrow> input ins;
         (loc, ins) \<leftarrow> input ins;
         (resp_lines, ins) \<leftarrow> bullet_loop [] ins;
         experience_loop
           (experience' @ [\<lparr>title = title, company = company, JobEntry.start_date = start,
              JobEntry.end_date = end, JobEntry.location = loc,
              responsibilities = resp_lines\<rparr>]) ins
       }
     }"
  by pat_completeness auto
termination
  by (relation "measure (\<lambda>(experience', ins). length ins)")
     (auto dest!: input_shorter bullet_loop_shorter)

declare experience_loop.simps [simp del]

function education_loop :: "EducationEntry list \<Rightarrow> str list \<Rightarrow> (EducationEntry list \<times> str list) option" where
  "education_loop education' ins =
     do {
       (degree, ins) \<leftarrow> input ins;
       if \<not> truthy (strip degree) then Some (education', ins)
       else do {
         (inst, ins) \<leftarrow> input ins;
         (start, ins) \<leftarrow> input ins;
         (end, ins) \<leftarrow> input ins;
         (loc, ins) \<leftarrow> input ins;
         (details, ins) \<leftarrow> input ins;
         education_loop
           (education' @ [\<lparr>degree = degree, institution = inst,
              EducationEntry.start_date = start, EducationEntry.end_date = end,
              EducationEntry.location = loc, details = details\<rparr>]) ins
       }
     }"
  by pat_completeness auto
termination
  by (relation "measure (\<lambda>(education', ins). length ins)")
     (auto dest!: input_shorter)

declare education_loop.simps [simp del]

function projects_loop :: "ProjectEntry list \<Rightarrow> str list \<Rightarrow> (ProjectEntry list \<times> str list) option" where
  "projects_loop projects' ins =
     do {
       (pname, ins) \<leftarrow> input ins;
       if \<not> truthy (strip pname) then Some (projects', ins)
       else do {
         (plink, ins) \<leftarrow> input ins;
         (pdesc, ins) \<leftarrow> input ins;
         (subpoints, ins) \<leftarrow> bullet_loop [] ins;
         projects_loop
           (projects' @ [\<lparr>ProjectEntry.name = pname, link = plink, description = pdesc,
              points = subpoints\<rparr>]) ins
       }
     }"
  by pat_completeness auto
termination
  by (relation "measure (\<lambda>(projects', ins). length ins)")
     (auto dest!: input_shorter bullet_loop_shorter)

declare projects_loop.simps [simp del]

function skills_loop :: "str list \<Rightarrow> str list \<Rightarrow> (str list \<times> str list) option" where
  "skills_loop skills' ins =
     do {
       (main, ins) \<leftarrow> input ins;
       if \<not> truthy (strip main) then Some (skills', ins)
       else do {
         (subskills, ins) \<leftarrow> bullet_loop [] ins;
         if truthy subskills
         then skills_loop (skills' @ [main @ lit '': '' @ py_join (lit '', '') subskills]) ins
         else skills_loop (skills' @ [main]) ins
       }
     }"
  by pat_completeness auto
termination
  by (relation "measure (\<lambda>(skills', ins). length ins)")
     (auto dest!: input_shorter bullet_loop_shorter)

declare skills_loop.simps [simp del]

definition interactive_fill :: "str list \<Rightarrow> (ResumeRecord \<times> str list) option" where
  "interactive_fill ins =
     do {
       (name, ins) \<leftarrow> input ins;
       (tagline, ins) \<leftarrow> input ins;
       (email, ins) \<leftarrow> input ins;
       (phone, ins) \<leftarrow> input ins;
       (location, ins) \<leftarrow> input ins;
       (linkedin, ins) \<leftarrow> input ins;
       (github, ins) \<leftarrow> input ins;
       (summary, ins) \<leftarrow> input ins;
       (experience, ins) \<leftarrow> experience_loop [] ins;
       (education, ins) \<leftarrow> education_loop [] ins;
       (projects, ins) \<leftarrow> projects_loop [] ins;
       (skills, ins) \<leftarrow> skills_loop [] ins;
       (strengths, ins) \<leftarrow> bullet_loop [] ins;
       Some (\<lparr>name = name, tagline = tagline, email = email, phone = phone,
               location = location, linkedin = linkedin, github = github,
               summary = (if truthy (strip summary) then summary else []),
               experience = experience, education = education, projects = projects,
               skills = skills, strengths = strengths\<rparr>, ins)
     }"

section \<open>The form-based collector (resume1.py)\<close>

text \<open>
  The values of the Streamlit widgets when the script runs: the text widgets by their
  keys (the numbered ones as functions of the index \<open>i\<close> in their key), the
  \<^verbatim>\<open>number_input\<close> counts as naturals (their \<^verbatim>\<open>min_value\<close> is 0).
\<close>

record widgets =
  w_name :: str
  w_tagline :: str
  w_email :: str
  w_phone :: str
  w_location :: str
  w_linkedin :: str
  w_github :: str
  w_summary :: str
  exp_count :: nat
  title_i :: "nat \<Rightarrow> str"
  company_i :: "nat \<Rightarrow> str"
  start_i :: "nat \<Rightarrow> str"
  end_i :: "nat \<Rightarrow> str"
  loc_i :: "nat \<Rightarrow> str"
  resps_i :: "nat \<Rightarrow> str"
  edu_count :: nat
  degree_i :: "nat \<Rightarrow> str"
  institution_i :: "nat \<Rightarrow> str"
  edu_start_i :: "nat \<Rightarrow> str"
  edu_end_i :: "nat \<Rightarrow> str"
  edu_loc_i :: "nat \<Rightarrow> str"
  edu_details_i :: "nat \<Rightarrow> str"
  proj_count :: nat
  proj_name_i :: "nat \<Rightarrow> str"
  proj_link_i :: "nat \<Rightarrow> str"
  proj_desc_i :: "nat \<Rightarrow> str"
  proj_points_i :: "nat \<Rightarrow> str"
  skills_count :: nat
  skill_main_i :: "nat \<Rightarrow> str"
  skill_sub_i :: "nat \<Rightarrow> str"
  w_strengths :: str

text \<open>\<^verbatim>\<open>text.split("\n") if text else []\<close>.\<close>

definition split_lines :: "str \<Rightarrow> str list" where
  "split_lines text = (if truthy text then py_split 10 text else [])"

definition form_experience :: "widgets \<Rightarrow> JobEntry list" where
  "form_experience w =
     foldl (\<lambda>experience i. experience @
        [\<lparr>title = title_i w i, company = company_i w i, JobEntry.start_date = start_i w i,
          JobEntry.end_date = end_i w i, JobEntry.location = loc_i w i,
          responsibilities = split_lines (resps_i w i)\<rparr>])
       [] [0..<exp_count w]"

definition form_education :: "widgets \<Rightarrow> EducationEntry list" where
  "form_education w =
     foldl (\<lambda>education i. education @
        [\<lparr>degree = degree_i w i, institution = institution_i w i,
          EducationEntry.start_date = edu_start_i w i, EducationEntry.end_date = edu_end_i w i,
          EducationEntry.location = edu_loc_i w i, details = edu_details_i w i\<rparr>])
       [] [0..<edu_count w]"

definition form_projects :: "widgets \<Rightarrow> ProjectEntry list" where
  "form_projects w =
     foldl (\<lambda>projects i. projects @
        [\<lparr>ProjectEntry.name = proj_name_i w i, link = proj_link_i w i,
          description = proj_desc_i w i, points = split_lines (proj_points_i w i)\<rparr>])
       [] [0..<proj_count w]"

definition skill_entry :: "str list \<Rightarrow> str \<Rightarrow> str \<Rightarrow> str list" where
  "skill_entry skills' main_skill subs =
     (if truthy main_skill then
        (if truthy subs then skills' @ [main_skill @ lit '': '' @ subs]
         else skills' @ [main_skill])
      else skills')"

definition form_skills :: "widgets \<Rightarrow> str list" where
  "form_skills w =
     foldl (\<lambda>skills i. skill_entry skills (skill_main_i w i) (skill_sub_i w i))
       [] [0..<skills_count w]"

definition form_data :: "widgets \<Rightarrow> ResumeRecord" where
  "form_data w =
     \<lparr>name = w_name w, tagline = w_tagline w, email = w_email w, phone = w_phone w,
      location = w_location w, linkedin = w_linkedin w, github = w_github w,
      summary = w_summary w, experience = form_experience w,
      education = form_education w, projects = form_projects w,
      skills = form_skills w, strengths = split_lines (w_strengths w)\<rparr>"

text \<open>\<^verbatim>\<open>html = tpl.render(css=CSS, **data)\<close> of resume1.py.\<close>

definition form_html :: "widgets \<Rightarrow> str" where
  "form_html w = TEMPLATE1_render CSS1 (form_data w)"

section \<open>Facts about the prompt-based collector\<close>

lemma all_dropWhile: "(\<forall>x\<in>set (dropWhile P s). P x) \<longleftrightarrow> (\<forall>x\<in>set s. P x)"
proof
  assume a: "\<forall>x\<in>set (dropWhile P s). P x"
  have "dropWhile P s = []"
  proof (rule ccontr)
    assume n: "dropWhile P s \<noteq> []"
    then have "\<not> P (hd (dropWhile P s))" by (rule hd_dropWhile)
    moreover have "hd (dropWhile P s) \<in> set (dropWhile P s)" using n by simp
    ultimately show False using a by blast
  qed
  then show "\<forall>x\<in>set s. P x" by (simp add: dropWhile_eq_Nil_conv)
next
  assume "\<forall>x\<in>set s. P x"
  then show "\<forall>x\<in>set (dropWhile P s). P x" by (blast dest: set_dropWhileD)
qed

text \<open>\<open>s.strip()\<close> is empty exactly when every character of \<open>s\<close> is whitespace.\<close>

lemma strip_empty_iff: "strip s = [] \<longleftrightarrow> (\<forall>c\<in>set s. isspace c)"
  by (simp add: strip_def dropWhile_eq_Nil_conv all_dropWhile)

lemma truthy_strip_iff: "truthy (strip s) \<longleftrightarrow> (\<exists>c\<in>set s. \<not> isspace c)"
  by (simp add: truthy_def strip_empty_iff)

lemma strip_subset: "set (strip s) \<subseteq> set s"
proof -
  have "set (strip s) = set (dropWhile isspace (rev (dropWhile isspace s)))"
    by (simp add: strip_def)
  also have "\<dots> \<subseteq> set (rev (dropWhile isspace s))"
    by (blast dest: set_dropWhileD)
  also have "\<dots> \<subseteq> set s"
    by (auto dest: set_dropWhileD)
  finally show ?thesis .
qed

text \<open>A non-empty \<open>s.strip()\<close> holds a character that is not whitespace.\<close>

lemma strip_has_nonspace: "truthy (strip s) \<Longrightarrow> \<exists>c\<in>set (strip s). \<not> isspace c"
proof -
  assume t: "truthy (strip s)"
  define u where "u = dropWhile isspace (rev (dropWhile isspace s))"
  have s: "strip s = rev u" by (simp add: strip_def u_def)
  with t have une: "u \<noteq> []" by (simp add: truthy_def)
  have "\<not> isspace (hd u)"
    unfolding u_def using une[unfolded u_def] by (rule hd_dropWhile)
  moreover have "hd u \<in> set (strip s)" using une s by simp
  ultimately show ?thesis by blast
qed

lemma input_Nil: "input [] = None"
  by (simp add: input_def)

lemma input_Cons: "input (l # rest) = Some (l, rest)"
  by (simp add: input_def)

lemma input_Some: "input ins = Some (l, rest) \<Longrightarrow> ins = l # rest"
  by (cases ins) (simp_all add: input_def)

text \<open>What a bullet loop returns: the stripped lines before the first blank one.\<close>

lemma bullet_loop_acc:
  "bullet_loop acc ins = Some (ls, rest) \<Longrightarrow>
     ls = acc @ map strip (takeWhile (\<lambda>l. truthy (strip l)) ins) \<and>
     (\<exists>b. \<not> truthy (strip b) \<and> ins = takeWhile (\<lambda>l. truthy (strip l)) ins @ b # rest)"
  by (induction acc ins rule: bullet_loop.induct) (auto split: if_splits)

lemma bullet_loop_returns:
  "\<not> truthy (strip b) \<Longrightarrow> \<forall>l\<in>set ls. truthy (strip l) \<Longrightarrow>
     bullet_loop acc (ls @ b # rest) = Some (acc @ map strip ls, rest)"
  by (induction ls arbitrary: acc) auto

lemma bullet_loop_stop:
  "\<not> truthy (strip t) \<Longrightarrow> bullet_loop acc (t # rest) = Some (acc, rest)"
  by simp

lemma experience_loop_stop:
  "\<not> truthy (strip t) \<Longrightarrow> experience_loop acc (t # rest) = Some (acc, rest)"
  by (subst experience_loop.simps) (simp add: input_Cons)

lemma education_loop_stop:
  "\<not> truthy (strip t) \<Longrightarrow> education_loop acc (t # rest) = Some (acc, rest)"
  by (subst education_loop.simps) (simp add: input_Cons)

lemma projects_loop_stop:
  "\<not> truthy (strip t) \<Longrightarrow> projects_loop acc (t # rest) = Some (acc, rest)"
  by (subst projects_loop.simps) (simp add: input_Cons)

lemma skills_loop_stop:
  "\<not> truthy (strip t) \<Longrightarrow> skills_loop acc (t # rest) = Some (acc, rest)"
  by (subst skills_loop.simps) (simp add: input_Cons)

lemma experience_loop_step:
  "truthy (strip t) \<Longrightarrow> bullet_loop [] ins = Some (r, rest) \<Longrightarrow>
   experience_loop acc (t # c # s # e # l # ins) =
   experience_loop (acc @ [\<lparr>title = t, company = c, JobEntry.start_date = s,
      JobEntry.end_date = e, JobEntry.location = l, responsibilities = r\<rparr>]) rest"
  by (subst experience_loop.simps) (simp add: input_Cons)

lemma education_loop_step:
  "truthy (strip t) \<Longrightarrow>
   education_loop acc (t # i # s # e # l # dt # rest) =
   education_loop (acc @ [\<lparr>degree = t, institution = i, EducationEntry.start_date = s,
      EducationEntry.end_date = e, EducationEntry.location = l, details = dt\<rparr>]) rest"
  by (subst education_loop.simps) (simp add: input_Cons)

lemma projects_loop_step:
  "truthy (strip t) \<Longrightarrow> bullet_loop [] ins = Some (pts, rest) \<Longrightarrow>
   projects_loop acc (t # l # ds # ins) =
   projects_loop (acc @ [\<lparr>ProjectEntry.name = t, link = l, description = ds,
      points = pts\<rparr>]) rest"
  by (subst projects_loop.simps) (simp add: input_Cons)

lemma skills_loop_step:
  "truthy (strip m) \<Longrightarrow> bullet_loop [] ins = Some (subs, rest) \<Longrightarrow>
   skills_loop acc (m # ins) =
   skills_loop
     (acc @ [if truthy subs then m @ lit '': '' @ py_join (lit '', '') subs else m]) rest"
  by (subst skills_loop.simps) (simp add: input_Cons)

text \<open>Invariant rules: what holds of the accumulator and is kept by every append holds of
  the list a loop returns.\<close>

lemma experience_loop_invariant:
  assumes "experience_loop acc ins = Some (es, rest)" and "I acc"
    and step: "\<And>a t c s e l r. I a \<Longrightarrow> truthy (strip t) \<Longrightarrow>
       I (a @ [\<lparr>title = t, company = c, JobEntry.start_date = s, JobEntry.end_date = e,
                JobEntry.location = l, responsibilities = r\<rparr>])"
  shows "I es"
  using assms(1,2)
proof (induction acc ins rule: experience_loop.induct)
  case (1 acc ins)
  from "1.prems"(1) show ?case
    apply (subst (asm) experience_loop.simps)
    apply (simp only: bind_eq_Some_conv)
    apply (elim exE conjE)
    apply (simp only: split_paired_all prod.case split: if_splits)
    subgoal using "1.prems"(2) by simp
    subgoal for t i1
      apply ((simp only: bind_eq_Some_conv, elim exE conjE,
              simp only: split_paired_all prod.case)+)
      subgoal for c i2 s i3 e i4 l i5 r i6
        apply (rule "1.IH"[of "(t, i1)" t i1 "(c, i2)" c i2 "(s, i3)" s i3 "(e, i4)" e i4
                 "(l, i5)" l i5 "(r, i6)" r i6])
        apply (simp_all only: not_not refl not_False_eq_True)
        apply (rule step[OF "1.prems"(2)])
        apply assumption
        done
      done
    done
qed

lemma education_loop_invariant:
  assumes "education_loop acc ins = Some (es, rest)" and "I acc"
    and step: "\<And>a t i s e l dt. I a \<Longrightarrow> truthy (strip t) \<Longrightarrow>
       I (a @ [\<lparr>degree = t, institution = i, EducationEntry.start_date = s,
                EducationEntry.end_date = e, EducationEntry.location = l, details = dt\<rparr>])"
  shows "I es"
  using assms(1,2)
proof (induction acc ins rule: education_loop.induct)
  case (1 acc ins)
  from "1.prems"(1) show ?case
    apply (subst (asm) education_loop.simps)
    apply (simp only: bind_eq_Some_conv)
    apply (elim exE conjE)
    apply (simp only: split_paired_all prod.case split: if_splits)
    subgoal using "1.prems"(2) by simp
    subgoal for t i1
      apply ((simp only: bind_eq_Some_conv, elim exE conjE,
              simp only: split_paired_all prod.case)+)
      subgoal for c i2 s i3 e i4 l i5 r i6
        apply (rule "1.IH"[of "(t, i1)" t i1 "(c, i2)" c i2 "(s, i3)" s i3 "(e, i4)" e i4
                 "(l, i5)" l i5 "(r, i6)" r i6])
        apply (simp_all only: not_not refl not_False_eq_True)
        apply (rule step[OF "1.prems"(2)])
        apply assumption
        done
      done
    done
qed

lemma projects_loop_invariant:
  assumes "projects_loop acc ins = Some (es, rest)" and "I acc"
    and step: "\<And>a t l ds pts. I a \<Longrightarrow> truthy (strip t) \<Longrightarrow>
       I (a @ [\<lparr>ProjectEntry.name = t, link = l, description = ds, points = pts\<rparr>])"
  shows "I es"
  using assms(1,2)
proof (induction acc ins rule: projects_loop.induct)
  case (1 acc ins)
  from "1.prems"(1) show ?case
    apply (subst (asm) projects_loop.simps)
    apply (simp only: bind_eq_Some_conv)
    apply (elim exE conjE)
    apply (simp only: split_paired_all prod.case split: if_splits)
    subgoal using "1.prems"(2) by simp
    subgoal for t i1
      apply ((simp only: bind_eq_Some_conv, elim exE conjE,
              simp only: split_paired_all prod.case)+)
      subgoal for c i2 s i3 r i4
        apply (rule "1.IH"[of "(t, i1)" t i1 "(c, i2)" c i2 "(s, i3)" s i3 "(r, i4)" r i4])
        apply (simp_all only: not_not refl not_False_eq_True)
        apply (rule step[OF "1.prems"(2)])
        apply assumption
        done
      done
    done
qed

lemma skills_loop_invariant:
  assumes "skills_loop acc ins = Some (es, rest)" and "I acc"
    and step1: "\<And>a m subs. I a \<Longrightarrow> truthy (strip m) \<Longrightarrow> truthy subs \<Longrightarrow>
       I (a @ [m @ lit '': '' @ py_join (lit '', '') subs])"
    and step2: "\<And>a m. I a \<Longrightarrow> truthy (strip m) \<Longrightarrow> I (a @ [m])"
  shows "I es"
  using assms(1,2)
proof (induction acc ins rule: skills_loop.induct)
  case (1 acc ins)
  from "1.prems"(1) show ?case
    apply (subst (asm) skills_loop.simps)
    apply (simp only: bind_eq_Some_conv)
    apply (elim exE conjE)
    apply (simp only: split_paired_all prod.case split: if_splits)
    subgoal using "1.prems"(2) by simp
    subgoal for t i1
      apply ((simp only: bind_eq_Some_conv, elim exE conjE,
              simp only: split_paired_all prod.case)+)
      apply (simp only: split: if_splits)
      subgoal for r i2
        apply (rule "1.IH"(1)[of "(t, i1)" t i1 "(r, i2)" r i2])
        apply (simp_all only: not_not refl not_False_eq_True)
        apply (rule step1[OF "1.prems"(2)])
        apply assumption+
        done
      subgoal for r i2
        apply (rule "1.IH"(2)[of "(t, i1)" t i1 "(r, i2)" r i2])
        apply (simp_all only: not_not refl not_False_eq_True)
        apply (rule step2[OF "1.prems"(2)])
        apply assumption
        done
      done
    done
qed

lemma experience_loop_Cons:
  "experience_loop acc (t # ins) =
     (if \<not> truthy (strip t) then Some (acc, ins)
      else do {
         (company, ins) \<leftarrow> input ins;
         (start, ins) \<leftarrow> input ins;
         (end, ins) \<leftarrow> input ins;
         (loc, ins) \<leftarrow> input ins;
         (resp_lines, ins) \<leftarrow> bullet_loop [] ins;
         experience_loop
           (acc @ [\<lparr>title = t, company = company, JobEntry.start_date = start,
              JobEntry.end_date = end, JobEntry.location = loc,
              responsibilities = resp_lines\<rparr>]) ins
       })"
  by (subst experience_loop.simps) (simp add: input_Cons)

lemma education_loop_Cons:
  "education_loop acc (t # ins) =
     (if \<not> truthy (strip t) then Some (acc, ins)
      else do {
         (inst, ins) \<leftarrow> input ins;
         (start, ins) \<leftarrow> input ins;
         (end, ins) \<leftarrow> input ins;
         (loc, ins) \<leftarrow> input ins;
         (details, ins) \<leftarrow> input ins;
         education_loop
           (acc @ [\<lparr>degree = t, institution = inst,
              EducationEntry.start_date = start, EducationEntry.end_date = end,
              EducationEntry.location = loc, details = details\<rparr>]) ins
       })"
  by (subst education_loop.simps) (simp add: input_Cons)

lemma projects_loop_Cons:
  "projects_loop acc (t # ins) =
     (if \<not> truthy (strip t) then Some (acc, ins)
      else do {
         (plink, ins) \<leftarrow> input ins;
         (pdesc, ins) \<leftarrow> input ins;
         (subpoints, ins) \<leftarrow> bullet_loop [] ins;
         projects_loop
           (acc @ [\<lparr>ProjectEntry.name = t, link = plink, description = pdesc,
              points = subpoints\<rparr>]) ins
       })"
  by (subst projects_loop.simps) (simp add: input_Cons)

lemma skills_loop_Cons:
  "skills_loop acc (t # ins) =
     (if \<not> truthy (strip t) then Some (acc, ins)
      else do {
         (subskills, ins) \<leftarrow> bullet_loop [] ins;
         if truthy subskills
         then skills_loop (acc @ [t @ lit '': '' @ py_join (lit '', '') subskills]) ins
         else skills_loop (acc @ [t]) ins
       })"
  by (subst skills_loop.simps) (simp add: input_Cons)

text \<open>What a successful run of \<open>interactive_fill\<close> has read, and with which loops.\<close>

lemma interactive_fill_Some:
  assumes "interactive_fill ins = Some (d, rest)"
  shows "\<exists>n tg em ph lo li gh su i8 i9 i10 i11 i12.
     ins = n # tg # em # ph # lo # li # gh # su # i8 \<and>
     experience_loop [] i8 = Some (experience d, i9) \<and>
     education_loop [] i9 = Some (education d, i10) \<and>
     projects_loop [] i10 = Some (projects d, i11) \<and>
     skills_loop [] i11 = Some (skills d, i12) \<and>
     bullet_loop [] i12 = Some (strengths d, rest) \<and>
     ResumeRecord.name d = n \<and> tagline d = tg \<and> email d = em \<and> phone d = ph \<and>
     ResumeRecord.location d = lo \<and> linkedin d = li \<and> github d = gh \<and>
     summary d = (if truthy (strip su) then su else [])"
  using assms unfolding interactive_fill_def
  apply -
  apply ((simp only: bind_eq_Some_conv, elim exE conjE,
          simp only: split_paired_all prod.case)+)
  apply (simp only: option.inject prod.inject)
  apply (elim conjE)
  apply (drule input_Some)+
  apply auto
  done

section \<open>A sample terminal session\<close>

text \<open>
  The lines typed in one run of resume.py: the eight scalar answers (a blank summary),
  one job with two responsibilities, one degree, one project with one highlight, two
  skills (one with two sub-skills) and one strength. Several of the lines that end a
  group hold blanks only.
\<close>

definition session_lines :: "str list" where
  "session_lines =
    [lit ''Jane Doe'', [], [], [], [], [], [], lit ''  '',
     lit ''Engineer'', lit ''Acme'', lit ''2020'', [], lit ''Remote'',
       lit '' Built X'', lit ''Shipped Y '', lit ''  '',
     lit '' '',
     lit ''BSc'', lit ''MIT'', lit ''2010'', lit ''2014'', [], [],
     [],
     lit ''Site'', [], [], lit ''Fast'', [],
     lit ''   '',
     lit ''Languages'', lit ''Go'', lit '' Rust'', [],
     lit ''Leadership'', [],
     lit '' '',
     lit ''Calm'', []]"

definition session_record :: ResumeRecord where
  "session_record =
    \<lparr>name = lit ''Jane Doe'', tagline = [], email = [], phone = [], location = [],
     linkedin = [], github = [], summary = [],
     experience = [\<lparr>title = lit ''Engineer'', company = lit ''Acme'',
        JobEntry.start_date = lit ''2020'', JobEntry.end_date = [],
        JobEntry.location = lit ''Remote'',
        responsibilities = [lit ''Built X'', lit ''Shipped Y'']\<rparr>],
     education = [\<lparr>degree = lit ''BSc'', institution = lit ''MIT'',
        EducationEntry.start_date = lit ''2010'', EducationEntry.end_date = lit ''2014'',
        EducationEntry.location = [], details = []\<rparr>],
     projects = [\<lparr>ProjectEntry.name = lit ''Site'', link = [], description = [],
        points = [lit ''Fast'']\<rparr>],
     skills = [lit ''Languages: Go, Rust'', lit ''Leadership''],
     strengths = [lit ''Calm'']\<rparr>"

lemma session_run: "interactive_fill session_lines = Some (session_record, [])"
  by (simp add: session_lines_def session_record_def interactive_fill_def input_Cons
      experience_loop_Cons education_loop_Cons projects_loop_Cons skills_loop_Cons
      lit_def strip_def isspace_def truthy_def)

section \<open>The prompt-based collector: blank answers end a group\<close>

lemma nonspace_append: "\<exists>c\<in>set m. \<not> isspace c \<Longrightarrow> \<exists>c\<in>set (m @ x). \<not> isspace c"
  by auto

lemma bullet_loop_nonspace:
  assumes "bullet_loop [] ins = Some (ls, rest)"
  shows "\<forall>l\<in>set ls. \<exists>c\<in>set l. \<not> isspace c"
proof -
  from bullet_loop_acc[OF assms]
  have ls: "ls = map strip (takeWhile (\<lambda>l. truthy (strip l)) ins)" by simp
  show ?thesis
  proof
    fix l assume "l \<in> set ls"
    then obtain r where r: "r \<in> set (takeWhile (\<lambda>l. truthy (strip l)) ins)" and l: "l = strip r"
      unfolding ls by auto
    from r have "truthy (strip r)" by (rule set_takeWhileD[THEN conjunct2])
    then show "\<exists>c\<in>set l. \<not> isspace c" unfolding l by (rule strip_has_nonspace)
  qed
qed

text \<open>
  Claim C10. In the prompt-based collector an answer to a group's first prompt (job
  title, degree, project name, main skill, strength) that is empty or holds whitespace
  only ends the group: the loop returns the entries collected so far, appends nothing
  for that answer and leaves the following lines unread. Hence every stored entry has a
  key with a character that is not whitespace.
\<close>

theorem blank_key_ends_group:
  "((\<forall>c\<in>set t. isspace c) \<longrightarrow>
      experience_loop es (t # rest) = Some (es, rest) \<and>
      education_loop eds (t # rest) = Some (eds, rest) \<and>
      projects_loop ps (t # rest) = Some (ps, rest) \<and>
      skills_loop sk (t # rest) = Some (sk, rest) \<and>
      bullet_loop st (t # rest) = Some (st, rest)) \<and>
   (interactive_fill ins = Some (d, rest') \<longrightarrow>
      (\<forall>j\<in>set (experience d). \<exists>c\<in>set (title j). \<not> isspace c) \<and>
      (\<forall>e\<in>set (education d). \<exists>c\<in>set (degree e). \<not> isspace c) \<and>
      (\<forall>p\<in>set (projects d). \<exists>c\<in>set (ProjectEntry.name p). \<not> isspace c) \<and>
      (\<forall>s\<in>set (skills d). \<exists>c\<in>set s. \<not> isspace c) \<and>
      (\<forall>s\<in>set (strengths d). \<exists>c\<in>set s. \<not> isspace c))"
proof (intro conjI impI)
  assume "\<forall>c\<in>set t. isspace c"
  then have blank: "\<not> truthy (strip t)" by (simp add: truthy_strip_iff)
  from blank show "experience_loop es (t # rest) = Some (es, rest)"
    by (rule experience_loop_stop)
  from blank show "education_loop eds (t # rest) = Some (eds, rest)"
    by (rule education_loop_stop)
  from blank show "projects_loop ps (t # rest) = Some (ps, rest)"
    by (rule projects_loop_stop)
  from blank show "skills_loop sk (t # rest) = Some (sk, rest)"
    by (rule skills_loop_stop)
  from blank show "bullet_loop st (t # rest) = Some (st, rest)"
    by (rule bullet_loop_stop)
next
  assume "interactive_fill ins = Some (d, rest')"
  from interactive_fill_Some[OF this] obtain i8 i9 i10 i11 i12 where
    ex: "experience_loop [] i8 = Some (experience d, i9)" and
    ed: "education_loop [] i9 = Some (education d, i10)" and
    pr: "projects_loop [] i10 = Some (projects d, i11)" and
    sk: "skills_loop [] i11 = Some (skills d, i12)" and
    st: "bullet_loop [] i12 = Some (strengths d, rest')"
    by blast
  show "\<forall>j\<in>set (experience d). \<exists>c\<in>set (title j). \<not> isspace c"
    by (rule experience_loop_invariant[OF ex]) (simp_all add: truthy_strip_iff)
  show "\<forall>e\<in>set (education d). \<exists>c\<in>set (degree e). \<not> isspace c"
    by (rule education_loop_invariant[OF ed]) (simp_all add: truthy_strip_iff)
  show "\<forall>p\<in>set (projects d). \<exists>c\<in>set (ProjectEntry.name p). \<not> isspace c"
    by (rule projects_loop_invariant[OF pr]) (simp_all add: truthy_strip_iff)
  show "\<forall>s\<in>set (skills d). \<exists>c\<in>set s. \<not> isspace c"
    by (rule skills_loop_invariant[OF sk]) (auto simp: truthy_strip_iff)
  show "\<forall>s\<in>set (strengths d). \<exists>c\<in>set s. \<not> isspace c"
    using st by (rule bullet_loop_nonspace)
qed

theorem blank_key_ends_group_witness:
  "list_all isspace (lit ''   '') \<and>
   experience_loop [] (lit ''   '' # session_lines) = Some ([], session_lines) \<and>
   skills_loop [lit ''Leadership''] [lit ''   '', lit ''Calm''] =
     Some ([lit ''Leadership''], [lit ''Calm'']) \<and>
   interactive_fill session_lines = Some (session_record, []) \<and>
   list_all (\<lambda>j. \<exists>c\<in>set (title j). \<not> isspace c) (experience session_record) \<and>
   list_all (\<lambda>s. \<exists>c\<in>set s. \<not> isspace c) (skills session_record)"
proof -
  have blank: "\<forall>c\<in>set (lit ''   ''). isspace c"
    by (simp add: lit_def isspace_def)
  note a = blank_key_ends_group[of "lit ''   ''" "[]" session_lines "[]" "[]" "[]" "[]"
      session_lines session_record "[]"]
  note b = blank_key_ends_group[of "lit ''   ''" "[]" "[lit ''Calm'']" "[]" "[]"
      "[lit ''Leadership'']" "[]" session_lines session_record "[]"]
  from a b blank session_run show ?thesis by (simp add: list_all_iff)
qed

section \<open>Facts about the form-based collector\<close>

lemma py_split_nonempty: "py_split sep s \<noteq> []"
  by (induction s) (auto split: list.splits)

lemma py_join_Cons_Cons: "py_join sep ((c # w) # ws) = c # py_join sep (w # ws)"
  by (cases ws) simp_all

text \<open>Joining the pieces of a split with the separator gives the text back: no piece is
  dropped or moved.\<close>

lemma py_join_py_split: "py_join [sep] (py_split sep s) = s"
proof (induction s)
  case Nil
  show ?case by simp
next
  case (Cons c cs)
  obtain w ws where ws: "py_split sep cs = w # ws"
    using py_split_nonempty[of sep cs] by (cases "py_split sep cs") auto
  show ?case
    using Cons ws by (simp add: py_join_Cons_Cons)
qed

lemma py_split_no_sep: "p \<in> set (py_split sep s) \<Longrightarrow> sep \<notin> set p"
proof (induction s arbitrary: p)
  case Nil
  then show ?case by simp
next
  case (Cons c cs)
  obtain w ws where ws: "py_split sep cs = w # ws"
    using py_split_nonempty[of sep cs] by (cases "py_split sep cs") auto
  show ?case
    using Cons.prems Cons.IH ws by (auto split: if_splits)
qed

lemma length_py_split: "length (py_split sep s) = Suc (length (filter (\<lambda>c. c = sep) s))"
proof (induction s)
  case Nil
  show ?case by simp
next
  case (Cons c cs)
  obtain w ws where ws: "py_split sep cs = w # ws"
    using py_split_nonempty[of sep cs] by (cases "py_split sep cs") auto
  show ?case
    using Cons ws by auto
qed

lemma foldl_append_map: "foldl (\<lambda>acc i. acc @ [f i]) a xs = a @ map f xs"
  by (induction xs arbitrary: a) simp_all

lemma form_experience_map:
  "form_experience w =
     map (\<lambda>i. \<lparr>title = title_i w i, company = company_i w i,
            JobEntry.start_date = start_i w i, JobEntry.end_date = end_i w i,
            JobEntry.location = loc_i w i,
            responsibilities = split_lines (resps_i w i)\<rparr>) [0..<exp_count w]"
  unfolding form_experience_def by (simp add: foldl_append_map)

lemma form_projects_map:
  "form_projects w =
     map (\<lambda>i. \<lparr>ProjectEntry.name = proj_name_i w i, link = proj_link_i w i,
            description = proj_desc_i w i, points = split_lines (proj_points_i w i)\<rparr>)
       [0..<proj_count w]"
  unfolding form_projects_def by (simp add: foldl_append_map)

lemma skill_entry_append: "skill_entry acc m s = acc @ skill_entry [] m s"
  by (simp add: skill_entry_def)

lemma foldl_skill_entry:
  "foldl (\<lambda>skills i. skill_entry skills (m i) (s i)) a xs =
     a @ concat (map (\<lambda>i. skill_entry [] (m i) (s i)) xs)"
proof (induction xs arbitrary: a)
  case Nil
  show ?case by simp
next
  case (Cons x xs)
  show ?case
    by (simp add: Cons.IH) (subst skill_entry_append, simp)
qed

lemma form_skills_concat:
  "form_skills w =
     concat (map (\<lambda>i. skill_entry [] (skill_main_i w i) (skill_sub_i w i))
       [0..<skills_count w])"
  unfolding form_skills_def by (simp add: foldl_skill_entry)

section \<open>The form as it first appears\<close>

text \<open>Every text widget empty and every count at its default \<^verbatim>\<open>value=1\<close>.\<close>

definition blank_widgets :: widgets where
  "blank_widgets =
    \<lparr>w_name = [], w_tagline = [], w_email = [], w_phone = [], w_location = [],
     w_linkedin = [], w_github = [], w_summary = [],
     exp_count = 1, title_i = (\<lambda>i. []), company_i = (\<lambda>i. []), start_i = (\<lambda>i. []),
     end_i = (\<lambda>i. []), loc_i = (\<lambda>i. []), resps_i = (\<lambda>i. []),
     edu_count = 1, degree_i = (\<lambda>i. []), institution_i = (\<lambda>i. []),
     edu_start_i = (\<lambda>i. []), edu_end_i = (\<lambda>i. []), edu_loc_i = (\<lambda>i. []),
     edu_details_i = (\<lambda>i. []),
     proj_count = 1, proj_name_i = (\<lambda>i. []), proj_link_i = (\<lambda>i. []),
     proj_desc_i = (\<lambda>i. []), proj_points_i = (\<lambda>i. []),
     skills_count = 1, skill_main_i = (\<lambda>i. []), skill_sub_i = (\<lambda>i. []),
     w_strengths = []\<rparr>"

section \<open>Bullet lists: what the two collectors store\<close>

text \<open>
  Claim C5 says that both collectors discard empty and whitespace-only lines. The form
  does not: a blank line between two responsibilities becomes an empty bullet of the
  record.
\<close>

theorem form_blank_line_counterexample:
  "responsibilities (hd (experience (form_data
      (blank_widgets\<lparr>resps_i := (\<lambda>i. lit ''Built X\<newline>\<newline>  \<newline>Shipped Y'')\<rparr>)))) =
     [lit ''Built X'', [], lit ''  '', lit ''Shipped Y'']"
  by (simp add: form_data_def form_experience_map blank_widgets_def split_lines_def
      truthy_def lit_def)

text \<open>
  Claim C5, amended. A prompt loop stores, in their order, the stripped texts of the
  lines before the first empty or whitespace-only line, which ends the list and is not
  stored; no stored line is empty. The form stores every piece of the text area between
  line breaks, in order and unchanged, empty and whitespace-only pieces included (the
  pieces joined by line breaks are the text); an empty text area gives no bullets.
\<close>

theorem bullets_stored:
  "(bullet_loop [] ins = Some (ls, rest) \<longrightarrow>
      ls = map strip (takeWhile (\<lambda>l. truthy (strip l)) ins) \<and>
      (\<forall>l\<in>set ls. l \<noteq> []) \<and>
      (\<exists>b. \<not> truthy (strip b) \<and> ins = takeWhile (\<lambda>l. truthy (strip l)) ins @ b # rest)) \<and>
   split_lines [] = [] \<and>
   (text \<noteq> [] \<longrightarrow>
      py_join [10] (split_lines text) = text \<and>
      (\<forall>p\<in>set (split_lines text). 10 \<notin> set p) \<and>
      length (split_lines text) = Suc (length (filter (\<lambda>c. c = 10) text))) \<and>
   (i < exp_count w \<longrightarrow>
      responsibilities (experience (form_data w) ! i) = split_lines (resps_i w i)) \<and>
   (i < proj_count w \<longrightarrow>
      points (projects (form_data w) ! i) = split_lines (proj_points_i w i)) \<and>
   strengths (form_data w) = split_lines (w_strengths w)"
proof (intro conjI impI)
  assume a: "bullet_loop [] ins = Some (ls, rest)"
  from bullet_loop_acc[OF a]
  show "ls = map strip (takeWhile (\<lambda>l. truthy (strip l)) ins)"
    and "\<exists>b. \<not> truthy (strip b) \<and> ins = takeWhile (\<lambda>l. truthy (strip l)) ins @ b # rest"
    by simp_all
  from bullet_loop_nonspace[OF a] show "\<forall>l\<in>set ls. l \<noteq> []"
    by auto
next
  show "split_lines [] = []" by (simp add: split_lines_def truthy_def)
next
  assume "text \<noteq> []"
  then have s: "split_lines text = py_split 10 text"
    by (simp add: split_lines_def truthy_def)
  show "py_join [10] (split_lines text) = text"
    unfolding s by (rule py_join_py_split)
  show "\<forall>p\<in>set (split_lines text). 10 \<notin> set p"
    unfolding s by (blast dest: py_split_no_sep)
  show "length (split_lines text) = Suc (length (filter (\<lambda>c. c = 10) text))"
    unfolding s by (rule length_py_split)
next
  assume "i < exp_count w"
  then show "responsibilities (experience (form_data w) ! i) = split_lines (resps_i w i)"
    by (simp add: form_data_def form_experience_map)
next
  assume "i < proj_count w"
  then show "points (projects (form_data w) ! i) = split_lines (proj_points_i w i)"
    by (simp add: form_data_def form_projects_map)
next
  show "strengths (form_data w) = split_lines (w_strengths w)"
    by (simp add: form_data_def)
qed

theorem bullets_stored_witness:
  "bullet_loop [] [lit '' Built X'', lit ''Shipped Y '', lit ''  '', lit ''next''] =
     Some ([lit ''Built X'', lit ''Shipped Y''], [lit ''next'']) \<and>
   lit ''a\<newline>\<newline>b'' \<noteq> [] \<and>
   split_lines (lit ''a\<newline>\<newline>b'') = [lit ''a'', [], lit ''b''] \<and>
   py_join [10] (split_lines (lit ''a\<newline>\<newline>b'')) = lit ''a\<newline>\<newline>b'' \<and>
   (0::nat) < exp_count blank_widgets \<and>
   responsibilities (experience (form_data
      (blank_widgets\<lparr>resps_i := (\<lambda>i. lit ''a\<newline>\<newline>b'')\<rparr>)) ! 0) = [lit ''a'', [], lit ''b'']"
proof -
  have run: "bullet_loop [] [lit '' Built X'', lit ''Shipped Y '', lit ''  '', lit ''next''] =
     Some ([lit ''Built X'', lit ''Shipped Y''], [lit ''next''])"
    by (simp add: lit_def strip_def isspace_def truthy_def)
  have sp: "split_lines (lit ''a\<newline>\<newline>b'') = [lit ''a'', [], lit ''b'']"
    by (simp add: split_lines_def truthy_def lit_def)
  have ne: "lit ''a\<newline>\<newline>b'' \<noteq> []" by (simp add: lit_def)
  have cnt: "(0::nat) < exp_count (blank_widgets\<lparr>resps_i := (\<lambda>i. lit ''a\<newline>\<newline>b'')\<rparr>)"
    by (simp add: blank_widgets_def)
  note t = bullets_stored[of "[lit '' Built X'', lit ''Shipped Y '', lit ''  '', lit ''next'']"
      "[lit ''Built X'', lit ''Shipped Y'']" "[lit ''next'']" "lit ''a\<newline>\<newline>b''" 0
      "blank_widgets\<lparr>resps_i := (\<lambda>i. lit ''a\<newline>\<newline>b'')\<rparr>"]
  from t run ne cnt sp show ?thesis by (simp add: blank_widgets_def)
qed

section \<open>Skills: the stored string\<close>

text \<open>
  Claim C6 says that the form, too, stores the sub-skills joined with a comma and a space.
  The form stores the sub-skill text as typed: \<^verbatim>\<open>Go,Rust\<close> stays \<^verbatim>\<open>Go,Rust\<close>.
\<close>

theorem form_subskills_counterexample:
  "form_skills (blank_widgets\<lparr>skill_main_i := (\<lambda>i. lit ''Languages''),
       skill_sub_i := (\<lambda>i. lit ''Go,Rust'')\<rparr>) = [lit ''Languages: Go,Rust''] \<and>
   form_skills (blank_widgets\<lparr>skill_main_i := (\<lambda>i. lit ''Languages''),
       skill_sub_i := (\<lambda>i. lit ''Go,Rust'')\<rparr>) \<noteq> [lit ''Languages: Go, Rust'']"
  by (simp add: form_skills_concat skill_entry_def blank_widgets_def truthy_def lit_def)

text \<open>
  Claim C6, amended. In the prompt variant every skill of a session, whatever follows it,
  is stored as follows: a main-skill line (with a character that is not whitespace)
  followed by sub-skill lines \<open>ls\<close> (each with such a character) and a blank line
  appends one string to the skills and the loop goes on with the lines after the blank
  one; the string is the main skill alone when there is no sub-skill line, and otherwise
  the main skill, a colon and a space, and the stripped sub-skills joined with a comma
  and a space. A blank main-skill line ends the loop, which returns the strings
  appended so far. Hence a session of any number of such skills followed by a blank line
  stores one string per skill, in order. In the form variant a category with a non-empty
  main skill is stored as the main skill alone when the sub-skill text is empty, and
  otherwise as the main skill, a colon and a space, and the sub-skill text exactly as
  typed; a category with an empty main skill is not stored.
\<close>

theorem skill_strings:
  "(truthy (strip main) \<and> (\<forall>l\<in>set ls. truthy (strip l)) \<and> \<not> truthy (strip b) \<longrightarrow>
      skills_loop acc (main # ls @ b # rest) =
        skills_loop
          (acc @ [if ls = [] then main
                  else main @ lit '': '' @ py_join (lit '', '') (map strip ls)]) rest) \<and>
   (\<not> truthy (strip b') \<longrightarrow> skills_loop acc (b' # rest) = Some (acc, rest)) \<and>
   ((\<forall>(m, xs, e)\<in>set gs.
        truthy (strip m) \<and> (\<forall>l\<in>set xs. truthy (strip l)) \<and> \<not> truthy (strip e)) \<and>
     \<not> truthy (strip b') \<longrightarrow>
      skills_loop acc (concat (map (\<lambda>(m, xs, e). m # xs @ [e]) gs) @ b' # rest) =
        Some (acc @ map (\<lambda>(m, xs, e).
                if xs = [] then m
                else m @ lit '': '' @ py_join (lit '', '') (map strip xs)) gs, rest)) \<and>
   skill_entry acc main_skill subs =
     (if main_skill = [] then acc
      else if subs = [] then acc @ [main_skill]
      else acc @ [main_skill @ lit '': '' @ subs]) \<and>
   form_skills w =
     concat (map (\<lambda>i. skill_entry [] (skill_main_i w i) (skill_sub_i w i))
       [0..<skills_count w])"
proof -
  have step: "skills_loop a (m # xs @ e # r) =
        skills_loop
          (a @ [if xs = [] then m
                else m @ lit '': '' @ py_join (lit '', '') (map strip xs)]) r"
    if h: "truthy (strip m)" "\<forall>l\<in>set xs. truthy (strip l)" "\<not> truthy (strip e)"
    for a m xs e r
  proof -
    have bl: "bullet_loop [] (xs @ e # r) = Some (map strip xs, r)"
      using bullet_loop_returns[of e xs "[]" r] h by simp
    have "skills_loop a (m # xs @ e # r) =
        skills_loop (a @ [if truthy (map strip xs)
           then m @ lit '': '' @ py_join (lit '', '') (map strip xs) else m]) r"
      using h(1) bl by (rule skills_loop_step)
    then show ?thesis by (simp add: truthy_def)
  qed
  have run: "skills_loop a (concat (map (\<lambda>(m, xs, e). m # xs @ [e]) gs) @ b' # rest) =
        Some (a @ map (\<lambda>(m, xs, e).
                if xs = [] then m
                else m @ lit '': '' @ py_join (lit '', '') (map strip xs)) gs, rest)"
    if g: "\<forall>(m, xs, e)\<in>set gs.
        truthy (strip m) \<and> (\<forall>l\<in>set xs. truthy (strip l)) \<and> \<not> truthy (strip e)"
      and e: "\<not> truthy (strip b')"
    for a
    using g
  proof (induction gs arbitrary: a)
    case Nil
    show ?case using e by (simp add: skills_loop_stop)
  next
    case (Cons g gs)
    obtain m xs e' where gd: "g = (m, xs, e')" by (cases g) auto
    from Cons.prems gd have h: "truthy (strip m)" "\<forall>l\<in>set xs. truthy (strip l)"
      "\<not> truthy (strip e')"
      by auto
    from Cons.prems have rest: "\<forall>(m, xs, e)\<in>set gs.
        truthy (strip m) \<and> (\<forall>l\<in>set xs. truthy (strip l)) \<and> \<not> truthy (strip e)"
      by simp
    have "skills_loop a (concat (map (\<lambda>(m, xs, e). m # xs @ [e]) (g # gs)) @ b' # rest) =
        skills_loop a (m # xs @ e' #
          (concat (map (\<lambda>(m, xs, e). m # xs @ [e]) gs) @ b' # rest))"
      by (simp add: gd)
    also have "\<dots> = skills_loop
          (a @ [if xs = [] then m
                else m @ lit '': '' @ py_join (lit '', '') (map strip xs)])
          (concat (map (\<lambda>(m, xs, e). m # xs @ [e]) gs) @ b' # rest)"
      using h by (rule step)
    also have "\<dots> = Some ((a @ [if xs = [] then m
                else m @ lit '': '' @ py_join (lit '', '') (map strip xs)]) @
            map (\<lambda>(m, xs, e).
                if xs = [] then m
                else m @ lit '': '' @ py_join (lit '', '') (map strip xs)) gs, rest)"
      using rest by (rule Cons.IH)
    finally show ?case by (simp add: gd)
  qed
  show ?thesis
  proof (intro conjI impI)
    assume "truthy (strip main) \<and> (\<forall>l\<in>set ls. truthy (strip l)) \<and> \<not> truthy (strip b)"
    then show "skills_loop acc (main # ls @ b # rest) =
        skills_loop
          (acc @ [if ls = [] then main
                  else main @ lit '': '' @ py_join (lit '', '') (map strip ls)]) rest"
      by (intro step) simp_all
  next
    assume "\<not> truthy (strip b')"
    then show "skills_loop acc (b' # rest) = Some (acc, rest)"
      by (rule skills_loop_stop)
  next
    assume "(\<forall>(m, xs, e)\<in>set gs.
        truthy (strip m) \<and> (\<forall>l\<in>set xs. truthy (strip l)) \<and> \<not> truthy (strip e)) \<and>
     \<not> truthy (strip b')"
    then show "skills_loop acc (concat (map (\<lambda>(m, xs, e). m # xs @ [e]) gs) @ b' # rest) =
        Some (acc @ map (\<lambda>(m, xs, e).
                if xs = [] then m
                else m @ lit '': '' @ py_join (lit '', '') (map strip xs)) gs, rest)"
      by (intro run) simp_all
  next
    show "skill_entry acc main_skill subs =
       (if main_skill = [] then acc
        else if subs = [] then acc @ [main_skill]
        else acc @ [main_skill @ lit '': '' @ subs])"
      by (simp add: skill_entry_def truthy_def)
  next
    show "form_skills w =
       concat (map (\<lambda>i. skill_entry [] (skill_main_i w i) (skill_sub_i w i))
         [0..<skills_count w])"
      by (rule form_skills_concat)
  qed
qed

text \<open>A session of two skills, the first with two sub-skills, followed by a strength.\<close>

theorem skill_strings_witness:
  "truthy (strip (lit ''Languages'')) \<and> list_all (\<lambda>l. truthy (strip l)) [lit ''Go'', lit '' Rust''] \<and>
   \<not> truthy (strip []) \<and> truthy (strip (lit ''Leadership'')) \<and> \<not> truthy (strip (lit '' '')) \<and>
   skills_loop [] [lit ''Languages'', lit ''Go'', lit '' Rust'', [], lit ''Leadership'', [],
       lit '' '', lit ''Calm''] =
     skills_loop [lit ''Languages: Go, Rust''] [lit ''Leadership'', [], lit '' '', lit ''Calm''] \<and>
   skills_loop [lit ''Languages: Go, Rust''] [lit ''Leadership'', [], lit '' '', lit ''Calm''] =
     skills_loop [lit ''Languages: Go, Rust'', lit ''Leadership''] [lit '' '', lit ''Calm''] \<and>
   skills_loop [lit ''Languages: Go, Rust'', lit ''Leadership''] [lit '' '', lit ''Calm''] =
     Some ([lit ''Languages: Go, Rust'', lit ''Leadership''], [lit ''Calm'']) \<and>
   skills_loop [] [lit ''Languages'', lit ''Go'', lit '' Rust'', [], lit ''Leadership'', [],
       lit '' '', lit ''Calm''] =
     Some ([lit ''Languages: Go, Rust'', lit ''Leadership''], [lit ''Calm'']) \<and>
   skill_entry [] (lit ''Languages'') (lit ''Go, Rust'') = [lit ''Languages: Go, Rust''] \<and>
   skill_entry [] (lit ''Leadership'') [] = [lit ''Leadership'']"
proof -
  have h: "truthy (strip (lit ''Languages''))" "truthy (strip (lit ''Leadership''))"
    "\<forall>l\<in>set [lit ''Go'', lit '' Rust'']. truthy (strip l)"
    "\<not> truthy (strip [])" "\<not> truthy (strip (lit '' ''))"
    by (simp_all add: lit_def strip_def isspace_def truthy_def)
  have s: "strip (lit ''Go'') = lit ''Go''" "strip (lit '' Rust'') = lit ''Rust''"
    by (simp_all add: lit_def strip_def isspace_def)
  have e: "lit ''Languages'' @ lit '': '' @ lit ''Go'' @ lit '', '' @ lit ''Rust'' =
      lit ''Languages: Go, Rust''"
    "lit ''Languages'' @ lit '': '' @ lit ''Go, Rust'' = lit ''Languages: Go, Rust''"
    by (simp_all add: lit_def)
  have ne: "lit ''Languages'' \<noteq> []" "lit ''Leadership'' \<noteq> []" "lit ''Go, Rust'' \<noteq> []"
    by (simp_all add: lit_def)
  note a = skill_strings[of "lit ''Languages''" "[lit ''Go'', lit '' Rust'']" "[]" "[]"
      "[lit ''Leadership'', [], lit '' '', lit ''Calm'']" "lit '' ''"
      "[(lit ''Languages'', [lit ''Go'', lit '' Rust''], []), (lit ''Leadership'', [], [])]"
      "lit ''Languages''" "lit ''Go, Rust''" blank_widgets]
  note b = skill_strings[of "lit ''Leadership''" "[]" "[]" "[lit ''Languages: Go, Rust'']"
      "[lit '' '', lit ''Calm'']" "lit '' ''" "[]" "lit ''Leadership''" "[]" blank_widgets]
  note c = skill_strings[of "lit ''Leadership''" "[]" "[]"
      "[lit ''Languages: Go, Rust'', lit ''Leadership'']"
      "[lit ''Calm'']" "lit '' ''" "[]" "lit ''Leadership''" "[]" blank_widgets]
  from a h have 1: "skills_loop [] [lit ''Languages'', lit ''Go'', lit '' Rust'', [],
       lit ''Leadership'', [], lit '' '', lit ''Calm''] =
     skills_loop [lit ''Languages: Go, Rust''] [lit ''Leadership'', [], lit '' '', lit ''Calm'']"
    by (simp add: s e)
  from b h have 2: "skills_loop [lit ''Languages: Go, Rust'']
       [lit ''Leadership'', [], lit '' '', lit ''Calm''] =
     skills_loop [lit ''Languages: Go, Rust'', lit ''Leadership''] [lit '' '', lit ''Calm'']"
    by simp
  from c h have 3: "skills_loop [lit ''Languages: Go, Rust'', lit ''Leadership'']
       [lit '' '', lit ''Calm''] =
     Some ([lit ''Languages: Go, Rust'', lit ''Leadership''], [lit ''Calm''])"
    by simp
  from a have 4: "skill_entry [] (lit ''Languages'') (lit ''Go, Rust'') =
      [lit ''Languages: Go, Rust'']"
    by (simp add: ne e)
  from skill_strings[of "lit ''Leadership''" "[]" "[]" "[]" "[]" "lit '' ''" "[]"
      "lit ''Leadership''" "[]" blank_widgets]
  have 5: "skill_entry [] (lit ''Leadership'') [] = [lit ''Leadership'']"
    by (simp add: ne)
  from 1 2 3 have 6: "skills_loop [] [lit ''Languages'', lit ''Go'', lit '' Rust'', [],
       lit ''Leadership'', [], lit '' '', lit ''Calm''] =
     Some ([lit ''Languages: Go, Rust'', lit ''Leadership''], [lit ''Calm''])"
    by simp
  from h 1 2 3 4 5 6 show ?thesis
    by (simp only: list_all_iff simp_thms)
qed

section \<open>Records and clock readings used as examples\<close>

text \<open>The degenerate record: only the name is set.\<close>

definition minimal_record :: "str \<Rightarrow> ResumeRecord" where
  "minimal_record n =
    \<lparr>name = n, tagline = [], email = [], phone = [], location = [], linkedin = [],
     github = [], summary = [], experience = [], education = [], projects = [],
     skills = [], strengths = []\<rparr>"

definition sample_time :: datetime where
  "sample_time = \<lparr>year = 2024, month = 3, day = 9, hour = 7, minute = 5\<rparr>"

text \<open>Three jobs, A, B and C; the last one is still held.\<close>

definition abc_record :: ResumeRecord where
  "abc_record = (minimal_record (lit ''Jane Doe''))\<lparr>experience :=
     [\<lparr>title = lit ''A'', company = lit ''Acme'', JobEntry.start_date = lit ''2015'',
        JobEntry.end_date = lit ''2018'', JobEntry.location = [],
        responsibilities = [lit ''Built X'', lit ''Shipped Y'']\<rparr>,
      \<lparr>title = lit ''B'', company = lit ''Bolt'', JobEntry.start_date = lit ''2018'',
        JobEntry.end_date = lit ''2020'', JobEntry.location = [], responsibilities = []\<rparr>,
      \<lparr>title = lit ''C'', company = lit ''Core'', JobEntry.start_date = lit ''2020'',
        JobEntry.end_date = [], JobEntry.location = [], responsibilities = []\<rparr>]\<rparr>"

section \<open>Occurrences in a rendered page\<close>

text \<open>\<open>in_order ts s\<close>: the texts \<open>ts\<close> occur in \<open>s\<close> whole, one after the other and without
  overlap, in the order of the list.\<close>

fun in_order :: "'a list list \<Rightarrow> 'a list \<Rightarrow> bool" where
  "in_order [] s = True"
| "in_order (t # ts) s = (\<exists>p q. s = p @ t @ q \<and> in_order ts q)"

lemmas tpl_defs = TEMPLATE_render_def tagline_part_def email_part_def phone_part_def
  location_part_def linkedin_part_def github_part_def summary_section_def
  experience_section_def education_section_def projects_section_def skills_section_def
  strengths_section_def

lemmas item_defs = job_item_def responsibility_item_def education_item_def project_item_def
  point_item_def skill_item_def strength_item_def

lemmas tpl1_defs = TEMPLATE1_render_def tagline_part1_def email_part1_def phone_part1_def
  location_part1_def linkedin_part1_def github_part1_def summary_section1_def
  experience_section1_def education_section1_def projects_section1_def skills_section1_def
  strengths_section1_def

lemmas item1_defs = job_item1_def responsibility_item1_def education_item1_def
  project_item1_def point_item1_def skill_item1_def strength_item1_def

lemma sublist_skip: "sublist x b \<Longrightarrow> sublist x (a @ b)"
  by (auto simp: sublist_def) (metis append.assoc)

lemma sublist_prefixI: "prefix x b \<Longrightarrow> sublist x b"
  by (auto simp: sublist_def prefix_def)

lemma prefix_step: "prefix ys zs \<Longrightarrow> prefix (x @ ys) (x @ zs)"
  by simp

lemma prefix_end: "prefix x (x @ zs)"
  by simp

lemma sublist_in_concat_map: "x \<in> set xs \<Longrightarrow> sublist (f x) (concat (map f xs))"
proof (induction xs)
  case Nil
  then show ?case by simp
next
  case (Cons a xs)
  show ?case
  proof (cases "x = a")
    case True
    then show ?thesis by simp
  next
    case False
    with Cons have "sublist (f x) (concat (map f xs))" by simp
    then show ?thesis by (simp add: sublist_skip)
  qed
qed

lemma sublist_trans: "sublist a b \<Longrightarrow> sublist b c \<Longrightarrow> sublist a c"
  by (rule sublist_order.order_trans)

lemma in_order_skip: "in_order ts b \<Longrightarrow> in_order ts (a @ b)"
proof (cases ts)
  case Nil
  then show ?thesis by simp
next
  case (Cons t ts')
  assume "in_order ts b"
  with Cons obtain p q where "b = p @ t @ q" "in_order ts' q" by auto
  then have "a @ b = (a @ p) @ t @ q \<and> in_order ts' q" by simp
  then show ?thesis unfolding Cons in_order.simps by blast
qed

lemma in_order_take: "in_order ts b \<Longrightarrow> in_order (t # ts) (t @ b)"
  by (simp, rule exI[of _ "[]"]) simp

lemma in_order_single: "in_order [t] t"
  by (simp, rule exI[of _ "[]"]) simp

lemma in_order_pad: "in_order ts a \<Longrightarrow> in_order ts (a @ b)"
proof (induction ts arbitrary: a)
  case Nil
  show ?case by simp
next
  case (Cons t ts)
  from Cons.prems obtain p q where a: "a = p @ t @ q" and q: "in_order ts q" by auto
  from Cons.IH[OF q] have "in_order ts (q @ b)" .
  moreover have "a @ b = p @ t @ (q @ b)" by (simp add: a)
  ultimately show ?case unfolding in_order.simps by blast
qed

lemma in_order_append:
  "in_order ts a \<Longrightarrow> in_order us b \<Longrightarrow> in_order (ts @ us) (a @ b)"
proof (induction ts arbitrary: a)
  case Nil
  then show ?case by (simp add: in_order_skip)
next
  case (Cons t ts)
  from Cons.prems(1) obtain p q where a: "a = p @ t @ q" and q: "in_order ts q" by auto
  from Cons.IH[OF q Cons.prems(2)] have "in_order (ts @ us) (q @ b)" .
  moreover have "a @ b = p @ t @ (q @ b)" by (simp add: a)
  ultimately show ?case unfolding append_Cons in_order.simps by blast
qed

lemma in_order_concat_map:
  "(\<And>x. x \<in> set xs \<Longrightarrow> in_order (f x) (g x)) \<Longrightarrow>
     in_order (concat (map f xs)) (concat (map g xs))"
proof (induction xs)
  case Nil
  show ?case by simp
next
  case (Cons x xs)
  have "in_order (f x) (g x)" by (rule Cons.prems) simp
  moreover have "in_order (concat (map f xs)) (concat (map g xs))"
    by (rule Cons.IH) (simp add: Cons.prems)
  ultimately show ?case by (simp add: in_order_append)
qed

lemma in_order_map:
  "(\<And>x. x \<in> set xs \<Longrightarrow> sublist (f x) (g x)) \<Longrightarrow>
     in_order (map f xs) (concat (map g xs))"
proof (induction xs)
  case Nil
  show ?case by simp
next
  case (Cons x xs)
  have "sublist (f x) (g x)" by (rule Cons.prems) simp
  then obtain p q where g: "g x = p @ f x @ q" by (auto simp: sublist_def)
  have "in_order (map f xs) (concat (map g xs))"
    by (rule Cons.IH) (simp add: Cons.prems)
  then have "in_order (map f xs) (q @ concat (map g xs))" by (rule in_order_skip)
  moreover have "concat (map g (x # xs)) = p @ f x @ (q @ concat (map g xs))"
    by (simp add: g)
  ultimately show ?case unfolding list.map in_order.simps by blast
qed

lemma in_order_sublist: "in_order ts a \<Longrightarrow> sublist a b \<Longrightarrow> in_order ts b"
proof -
  assume a: "in_order ts a" and "sublist a b"
  then obtain p q where "b = p @ a @ q" by (auto simp: sublist_def)
  moreover have "in_order ts (p @ a @ q)"
    using a by (intro in_order_skip in_order_pad)
  ultimately show ?thesis by simp
qed

section \<open>Every part of a template is part of the page\<close>

lemma tagline_part_shown: "sublist (tagline_part d) (TEMPLATE_render css g d)"
  unfolding TEMPLATE_render_def
  by ((rule sublist_prefixI, ((rule prefix_step)+)?,
        (rule prefix_end | rule prefix_order.refl))
      | rule sublist_skip)+

lemma email_part_shown: "sublist (email_part d) (TEMPLATE_render css g d)"
  unfolding TEMPLATE_render_def
  by ((rule sublist_prefixI, ((rule prefix_step)+)?,
        (rule prefix_end | rule prefix_order.refl))
      | rule sublist_skip)+

lemma phone_part_shown: "sublist (phone_part d) (TEMPLATE_render css g d)"
  unfolding TEMPLATE_render_def
  by ((rule sublist_prefixI, ((rule prefix_step)+)?,
        (rule prefix_end | rule prefix_order.refl))
      | rule sublist_skip)+

lemma location_part_shown: "sublist (location_part d) (TEMPLATE_render css g d)"
  unfolding TEMPLATE_render_def
  by ((rule sublist_prefixI, ((rule prefix_step)+)?,
        (rule prefix_end | rule prefix_order.refl))
      | rule sublist_skip)+

lemma linkedin_part_shown: "sublist (linkedin_part d) (TEMPLATE_render css g d)"
  unfolding TEMPLATE_render_def
  by ((rule sublist_prefixI, ((rule prefix_step)+)?,
        (rule prefix_end | rule prefix_order.refl))
      | rule sublist_skip)+

lemma github_part_shown: "sublist (github_part d) (TEMPLATE_render css g d)"
  unfolding TEMPLATE_render_def
  by ((rule sublist_prefixI, ((rule prefix_step)+)?,
        (rule prefix_end | rule prefix_order.refl))
      | rule sublist_skip)+

lemma summary_section_shown: "sublist (summary_section d) (TEMPLATE_render css g d)"
  unfolding TEMPLATE_render_def
  by ((rule sublist_prefixI, ((rule prefix_step)+)?,
        (rule prefix_end | rule prefix_order.refl))
      | rule sublist_skip)+

lemma experience_section_shown: "sublist (experience_section d) (TEMPLATE_render css g d)"
  unfolding TEMPLATE_render_def
  by ((rule sublist_prefixI, ((rule prefix_step)+)?,
        (rule prefix_end | rule prefix_order.refl))
      | rule sublist_skip)+

lemma education_section_shown: "sublist (education_section d) (TEMPLATE_render css g d)"
  unfolding TEMPLATE_render_def
  by ((rule sublist_prefixI, ((rule prefix_step)+)?,
        (rule prefix_end | rule prefix_order.refl))
      | rule sublist_skip)+

lemma projects_section_shown: "sublist (projects_section d) (TEMPLATE_render css g d)"
  unfolding TEMPLATE_render_def
  by ((rule sublist_prefixI, ((rule prefix_step)+)?,
        (rule prefix_end | rule prefix_order.refl))
      | rule sublist_skip)+

lemma skills_section_shown: "sublist (skills_section d) (TEMPLATE_render css g d)"
  unfolding TEMPLATE_render_def
  by ((rule sublist_prefixI, ((rule prefix_step)+)?,
        (rule prefix_end | rule prefix_order.refl))
      | rule sublist_skip)+

lemma strengths_section_shown: "sublist (strengths_section d) (TEMPLATE_render css g d)"
  unfolding TEMPLATE_render_def
  by ((rule sublist_prefixI, ((rule prefix_step)+)?,
        (rule prefix_end | rule prefix_order.refl))
      | rule sublist_skip)+

lemma tagline_part_shown1: "sublist (tagline_part1 d) (TEMPLATE1_render css d)"
  unfolding TEMPLATE1_render_def
  by ((rule sublist_prefixI, ((rule prefix_step)+)?,
        (rule prefix_end | rule prefix_order.refl))
      | rule sublist_skip)+

lemma email_part_shown1: "sublist (email_part1 d) (TEMPLATE1_render css d)"
  unfolding TEMPLATE1_render_def
  by ((rule sublist_prefixI, ((rule prefix_step)+)?,
        (rule prefix_end | rule prefix_order.refl))
      | rule sublist_skip)+

lemma phone_part_shown1: "sublist (phone_part1 d) (TEMPLATE1_render css d)"
  unfolding TEMPLATE1_render_def
  by ((rule sublist_prefixI, ((rule prefix_step)+)?,
        (rule prefix_end | rule prefix_order.refl))
      | rule sublist_skip)+

lemma location_part_shown1: "sublist (location_part1 d) (TEMPLATE1_render css d)"
  unfolding TEMPLATE1_render_def
  by ((rule sublist_prefixI, ((rule prefix_step)+)?,
        (rule prefix_end | rule prefix_order.refl))
      | rule sublist_skip)+

lemma linkedin_part_shown1: "sublist (linkedin_part1 d) (TEMPLATE1_render css d)"
  unfolding TEMPLATE1_render_def
  by ((rule sublist_prefixI, ((rule prefix_step)+)?,
        (rule prefix_end | rule prefix_order.refl))
      | rule sublist_skip)+

lemma github_part_shown1: "sublist (github_part1 d) (TEMPLATE1_render css d)"
  unfolding TEMPLATE1_render_def
  by ((rule sublist_prefixI, ((rule prefix_step)+)?,
        (rule prefix_end | rule prefix_order.refl))
      | rule sublist_skip)+

lemma summary_section_shown1: "sublist (summary_section1 d) (TEMPLATE1_render css d)"
  unfolding TEMPLATE1_render_def
  by ((rule sublist_prefixI, ((rule prefix_step)+)?,
        (rule prefix_end | rule prefix_order.refl))
      | rule sublist_skip)+

lemma experience_section_shown1: "sublist (experience_section1 d) (TEMPLATE1_render css d)"
  unfolding TEMPLATE1_render_def
  by ((rule sublist_prefixI, ((rule prefix_step)+)?,
        (rule prefix_end | rule prefix_order.refl))
      | rule sublist_skip)+

lemma education_section_shown1: "sublist (education_section1 d) (TEMPLATE1_render css d)"
  unfolding TEMPLATE1_render_def
  by ((rule sublist_prefixI, ((rule prefix_step)+)?,
        (rule prefix_end | rule prefix_order.refl))
      | rule sublist_skip)+

lemma projects_section_shown1: "sublist (projects_section1 d) (TEMPLATE1_render css d)"
  unfolding TEMPLATE1_render_def
  by ((rule sublist_prefixI, ((rule prefix_step)+)?,
        (rule prefix_end | rule prefix_order.refl))
      | rule sublist_skip)+

lemma skills_section_shown1: "sublist (skills_section1 d) (TEMPLATE1_render css d)"
  unfolding TEMPLATE1_render_def
  by ((rule sublist_prefixI, ((rule prefix_step)+)?,
        (rule prefix_end | rule prefix_order.refl))
      | rule sublist_skip)+

lemma strengths_section_shown1: "sublist (strengths_section1 d) (TEMPLATE1_render css d)"
  unfolding TEMPLATE1_render_def
  by ((rule sublist_prefixI, ((rule prefix_step)+)?,
        (rule prefix_end | rule prefix_order.refl))
      | rule sublist_skip)+

section \<open>Entries inside their sections\<close>

lemma job_in_section:
  "x \<in> set (experience d) \<Longrightarrow> sublist (job_item x) (experience_section d)"
proof -
  assume x: "x \<in> set (experience d)"
  then have t: "truthy (experience d)" by (auto simp: truthy_def)
  have "sublist (concat (map job_item (experience d))) (experience_section d)"
    unfolding experience_section_def using t
    by (simp only: if_True)
       ((rule sublist_prefixI, ((rule prefix_step)+)?,
          (rule prefix_end | rule prefix_order.refl))
        | rule sublist_skip)+
  with sublist_in_concat_map[OF x, of job_item] show ?thesis
    by (rule sublist_trans)
qed

lemma job_in_page:
  "x \<in> set (experience d) \<Longrightarrow> sublist (job_item x) (TEMPLATE_render css g d)"
  by (rule sublist_trans[OF job_in_section experience_section_shown])

lemma degree_in_section:
  "x \<in> set (education d) \<Longrightarrow> sublist (education_item x) (education_section d)"
proof -
  assume x: "x \<in> set (education d)"
  then have t: "truthy (education d)" by (auto simp: truthy_def)
  have "sublist (concat (map education_item (education d))) (education_section d)"
    unfolding education_section_def using t
    by (simp only: if_True)
       ((rule sublist_prefixI, ((rule prefix_step)+)?,
          (rule prefix_end | rule prefix_order.refl))
        | rule sublist_skip)+
  with sublist_in_concat_map[OF x, of education_item] show ?thesis
    by (rule sublist_trans)
qed

lemma degree_in_page:
  "x \<in> set (education d) \<Longrightarrow> sublist (education_item x) (TEMPLATE_render css g d)"
  by (rule sublist_trans[OF degree_in_section education_section_shown])

lemma project_in_section:
  "x \<in> set (projects d) \<Longrightarrow> sublist (project_item x) (projects_section d)"
proof -
  assume x: "x \<in> set (projects d)"
  then have t: "truthy (projects d)" by (auto simp: truthy_def)
  have "sublist (concat (map project_item (projects d))) (projects_section d)"
    unfolding projects_section_def using t
    by (simp only: if_True)
       ((rule sublist_prefixI, ((rule prefix_step)+)?,
          (rule prefix_end | rule prefix_order.refl))
        | rule sublist_skip)+
  with sublist_in_concat_map[OF x, of project_item] show ?thesis
    by (rule sublist_trans)
qed

lemma project_in_page:
  "x \<in> set (projects d) \<Longrightarrow> sublist (project_item x) (TEMPLATE_render css g d)"
  by (rule sublist_trans[OF project_in_section projects_section_shown])

lemma skill_in_section:
  "x \<in> set (skills d) \<Longrightarrow> sublist (skill_item x) (skills_section d)"
proof -
  assume x: "x \<in> set (skills d)"
  then have t: "truthy (skills d)" by (auto simp: truthy_def)
  have "sublist (concat (map skill_item (skills d))) (skills_section d)"
    unfolding skills_section_def using t
    by (simp only: if_True)
       ((rule sublist_prefixI, ((rule prefix_step)+)?,
          (rule prefix_end | rule prefix_order.refl))
        | rule sublist_skip)+
  with sublist_in_concat_map[OF x, of skill_item] show ?thesis
    by (rule sublist_trans)
qed

lemma skill_in_page:
  "x \<in> set (skills d) \<Longrightarrow> sublist (skill_item x) (TEMPLATE_render css g d)"
  by (rule sublist_trans[OF skill_in_section skills_section_shown])

lemma strength_in_section:
  "x \<in> set (strengths d) \<Longrightarrow> sublist (strength_item x) (strengths_section d)"
proof -
  assume x: "x \<in> set (strengths d)"
  then have t: "truthy (strengths d)" by (auto simp: truthy_def)
  have "sublist (concat (map strength_item (strengths d))) (strengths_section d)"
    unfolding strengths_section_def using t
    by (simp only: if_True)
       ((rule sublist_prefixI, ((rule prefix_step)+)?,
          (rule prefix_end | rule prefix_order.refl))
        | rule sublist_skip)+
  with sublist_in_concat_map[OF x, of strength_item] show ?thesis
    by (rule sublist_trans)
qed

lemma strength_in_page:
  "x \<in> set (strengths d) \<Longrightarrow> sublist (strength_item x) (TEMPLATE_render css g d)"
  by (rule sublist_trans[OF strength_in_section strengths_section_shown])

lemma responsibility_in_job:
  "x \<in> set (responsibilities y) \<Longrightarrow> sublist (responsibility_item x) (job_item y)"
proof -
  assume x: "x \<in> set (responsibilities y)"
  then have t: "truthy (responsibilities y)" by (auto simp: truthy_def)
  have "sublist (concat (map responsibility_item (responsibilities y))) (job_item y)"
    unfolding job_item_def using t
    by (simp only: if_True append_assoc)?
       ((rule sublist_prefixI, ((rule prefix_step)+)?,
          (rule prefix_end | rule prefix_order.refl))
        | rule sublist_skip)+
  with sublist_in_concat_map[OF x, of responsibility_item] show ?thesis
    by (rule sublist_trans)
qed

lemma point_in_project:
  "x \<in> set (points y) \<Longrightarrow> sublist (point_item x) (project_item y)"
proof -
  assume x: "x \<in> set (points y)"
  then have t: "truthy (points y)" by (auto simp: truthy_def)
  have "sublist (concat (map point_item (points y))) (project_item y)"
    unfolding project_item_def using t
    by (simp only: if_True append_assoc)?
       ((rule sublist_prefixI, ((rule prefix_step)+)?,
          (rule prefix_end | rule prefix_order.refl))
        | rule sublist_skip)+
  with sublist_in_concat_map[OF x, of point_item] show ?thesis
    by (rule sublist_trans)
qed

lemma job_in_section1:
  "x \<in> set (experience d) \<Longrightarrow> sublist (job_item1 x) (experience_section1 d)"
proof -
  assume x: "x \<in> set (experience d)"
  then have t: "truthy (experience d)" by (auto simp: truthy_def)
  have "sublist (concat (map job_item1 (experience d))) (experience_section1 d)"
    unfolding experience_section1_def using t
    by (simp only: if_True)
       ((rule sublist_prefixI, ((rule prefix_step)+)?,
          (rule prefix_end | rule prefix_order.refl))
        | rule sublist_skip)+
  with sublist_in_concat_map[OF x, of job_item1] show ?thesis
    by (rule sublist_trans)
qed

lemma job_in_page1:
  "x \<in> set (experience d) \<Longrightarrow> sublist (job_item1 x) (TEMPLATE1_render css d)"
  by (rule sublist_trans[OF job_in_section1 experience_section_shown1])

lemma degree_in_section1:
  "x \<in> set (education d) \<Longrightarrow> sublist (education_item1 x) (education_section1 d)"
proof -
  assume x: "x \<in> set (education d)"
  then have t: "truthy (education d)" by (auto simp: truthy_def)
  have "sublist (concat (map education_item1 (education d))) (education_section1 d)"
    unfolding education_section1_def using t
    by (simp only: if_True)
       ((rule sublist_prefixI, ((rule prefix_step)+)?,
          (rule prefix_end | rule prefix_order.refl))
        | rule sublist_skip)+
  with sublist_in_concat_map[OF x, of education_item1] show ?thesis
    by (rule sublist_trans)
qed

lemma degree_in_page1:
  "x \<in> set (education d) \<Longrightarrow> sublist (education_item1 x) (TEMPLATE1_render css d)"
  by (rule sublist_trans[OF degree_in_section1 education_section_shown1])

lemma project_in_section1:
  "x \<in> set (projects d) \<Longrightarrow> sublist (project_item1 x) (projects_section1 d)"
proof -
  assume x: "x \<in> set (projects d)"
  then have t: "truthy (projects d)" by (auto simp: truthy_def)
  have "sublist (concat (map project_item1 (projects d))) (projects_section1 d)"
    unfolding projects_section1_def using t
    by (simp only: if_True)
       ((rule sublist_prefixI, ((rule prefix_step)+)?,
          (rule prefix_end | rule prefix_order.refl))
        | rule sublist_skip)+
  with sublist_in_concat_map[OF x, of project_item1] show ?thesis
    by (rule sublist_trans)
qed

lemma project_in_page1:
  "x \<in> set (projects d) \<Longrightarrow> sublist (project_item1 x) (TEMPLATE1_render css d)"
  by (rule sublist_trans[OF project_in_section1 projects_section_shown1])

lemma skill_in_section1:
  "x \<in> set (skills d) \<Longrightarrow> sublist (skill_item1 x) (skills_section1 d)"
proof -
  assume x: "x \<in> set (skills d)"
  then have t: "truthy (skills d)" by (auto simp: truthy_def)
  have "sublist (concat (map skill_item1 (skills d))) (skills_section1 d)"
    unfolding skills_section1_def using t
    by (simp only: if_True)
       ((rule sublist_prefixI, ((rule prefix_step)+)?,
          (rule prefix_end | rule prefix_order.refl))
        | rule sublist_skip)+
  with sublist_in_concat_map[OF x, of skill_item1] show ?thesis
    by (rule sublist_trans)
qed

lemma skill_in_page1:
  "x \<in> set (skills d) \<Longrightarrow> sublist (skill_item1 x) (TEMPLATE1_render css d)"
  by (rule sublist_trans[OF skill_in_section1 skills_section_shown1])

lemma strength_in_section1:
  "x \<in> set (strengths d) \<Longrightarrow> sublist (strength_item1 x) (strengths_section1 d)"
proof -
  assume x: "x \<in> set (strengths d)"
  then have t: "truthy (strengths d)" by (auto simp: truthy_def)
  have "sublist (concat (map strength_item1 (strengths d))) (strengths_section1 d)"
    unfolding strengths_section1_def using t
    by (simp only: if_True)
       ((rule sublist_prefixI, ((rule prefix_step)+)?,
          (rule prefix_end | rule prefix_order.refl))
        | rule sublist_skip)+
  with sublist_in_concat_map[OF x, of strength_item1] show ?thesis
    by (rule sublist_trans)
qed

lemma strength_in_page1:
  "x \<in> set (strengths d) \<Longrightarrow> sublist (strength_item1 x) (TEMPLATE1_render css d)"
  by (rule sublist_trans[OF strength_in_section1 strengths_section_shown1])

lemma responsibility_in_job1:
  "x \<in> set (responsibilities y) \<Longrightarrow> sublist (responsibility_item1 x) (job_item1 y)"
proof -
  assume x: "x \<in> set (responsibilities y)"
  then have t: "truthy (responsibilities y)" by (auto simp: truthy_def)
  have "sublist (concat (map responsibility_item1 (responsibilities y))) (job_item1 y)"
    unfolding job_item1_def using t
    by (simp only: if_True append_assoc)?
       ((rule sublist_prefixI, ((rule prefix_step)+)?,
          (rule prefix_end | rule prefix_order.refl))
        | rule sublist_skip)+
  with sublist_in_concat_map[OF x, of responsibility_item1] show ?thesis
    by (rule sublist_trans)
qed

lemma point_in_project1:
  "x \<in> set (points y) \<Longrightarrow> sublist (point_item1 x) (project_item1 y)"
proof -
  assume x: "x \<in> set (points y)"
  then have t: "truthy (points y)" by (auto simp: truthy_def)
  have "sublist (concat (map point_item1 (points y))) (project_item1 y)"
    unfolding project_item1_def using t
    by (simp only: if_True append_assoc)?
       ((rule sublist_prefixI, ((rule prefix_step)+)?,
          (rule prefix_end | rule prefix_order.refl))
        | rule sublist_skip)+
  with sublist_in_concat_map[OF x, of point_item1] show ?thesis
    by (rule sublist_trans)
qed

lemma in_order_empty: "in_order ts s \<Longrightarrow> in_order ([] # ts) s"
  by (simp, rule exI[of _ "[]"]) simp

lemma in_order_nil: "in_order [] s"
  by simp

lemma in_order_skip_Cons: "in_order ts b \<Longrightarrow> in_order ts (c # b)"
  using in_order_skip[of ts b "[c]"] by simp

lemma in_order_items:
  "(\<And>x. x \<in> set xs \<Longrightarrow> sublist x (g x)) \<Longrightarrow> in_order xs (concat (map g xs))"
  using in_order_map[of xs "\<lambda>x. x" g] by simp

lemma in_order_appendD1: "in_order (ts @ us) s \<Longrightarrow> in_order ts s"
proof (induction ts arbitrary: s)
  case Nil
  show ?case by simp
next
  case (Cons t ts)
  from Cons.prems obtain p q where s: "s = p @ t @ q" and q: "in_order (ts @ us) q"
    by auto
  from Cons.IH[OF q] s show ?case by auto
qed

lemma in_order_appendD2: "in_order (ts @ us) s \<Longrightarrow> in_order us s"
proof (induction ts arbitrary: s)
  case Nil
  then show ?case by simp
next
  case (Cons t ts)
  from Cons.prems obtain p q where s: "s = p @ t @ q" and q: "in_order (ts @ us) q"
    by auto
  have "in_order us q" by (rule Cons.IH[OF q])
  then have "in_order us ((p @ t) @ q)" by (rule in_order_skip)
  then show ?case by (simp add: s)
qed

text \<open>\<open>at_head t ts s\<close>: \<open>s\<close> starts with \<open>t\<close>, and \<open>ts\<close> occur in order in what follows.\<close>

definition at_head :: "'a list \<Rightarrow> 'a list list \<Rightarrow> 'a list \<Rightarrow> bool" where
  "at_head t ts s = (\<exists>q. s = t @ q \<and> in_order ts q)"

lemma at_head_last: "in_order ts b \<Longrightarrow> at_head t ts (t @ b)"
  by (auto simp: at_head_def)

lemma at_head_step: "at_head u ts b \<Longrightarrow> at_head (c @ u) ts (c @ b)"
  by (auto simp: at_head_def)

lemma at_head_step_Cons: "at_head u ts b \<Longrightarrow> at_head (x # u) ts (x # b)"
  by (auto simp: at_head_def)

lemma at_head_in_order: "at_head t ts s \<Longrightarrow> in_order (t # ts) s"
  unfolding at_head_def in_order.simps by (metis append_Nil)

declare in_order.simps [simp del]

lemma py_or_Nil: "py_or a [] = a"
  by (simp add: py_or_def truthy_def)

lemma in_order_opt_line:
  "in_order ts b \<Longrightarrow>
     in_order ((if t = [] then [] else [A @ t @ B]) @ ts)
       ((if truthy t then A @ t @ B else []) @ b)"
proof (cases "t = []")
  case True
  assume "in_order ts b"
  then show ?thesis using True by (simp add: truthy_def)
next
  case False
  assume "in_order ts b"
  then have "in_order ((A @ t @ B) # ts) ((A @ t @ B) @ b)" by (rule in_order_take)
  then show ?thesis using False by (simp add: truthy_def)
qed

lemma in_order_opt_line_last:
  "in_order (if t = [] then [] else [A @ t @ B]) ((if truthy t then A @ t @ B else []) @ b)"
  using in_order_opt_line[of "[]" b t A B] by (simp add: in_order_nil)

lemma in_order_opt_map:
  assumes "\<And>x. x \<in> set xs \<Longrightarrow> sublist (f x) (g x)"
  shows "in_order (map f xs)
     ((if truthy xs then A1 @ A2 @ A3 @ concat (map g xs) @ B else []) @ b)"
proof (cases "xs = []")
  case True
  then show ?thesis by (simp add: in_order_nil)
next
  case False
  have "in_order (map f xs) (concat (map g xs))" using assms by (rule in_order_map)
  then have "in_order (map f xs) (concat (map g xs) @ B @ b)" by (rule in_order_pad)
  then have "in_order (map f xs) (A3 @ concat (map g xs) @ B @ b)" by (rule in_order_skip)
  then have "in_order (map f xs) (A2 @ A3 @ concat (map g xs) @ B @ b)" by (rule in_order_skip)
  then have "in_order (map f xs) (A1 @ A2 @ A3 @ concat (map g xs) @ B @ b)"
    by (rule in_order_skip)
  then show ?thesis using False by (simp add: truthy_def)
qed

section \<open>The lines a page shows, in the order of the template\<close>

text \<open>
  What each template writes for an entry, without the white space between the lines: the
  lines of a job, of a degree and of a project, each field between the tags and the
  separators of its line, and a list item for every responsibility and point. A line is
  never empty, whatever its fields hold.
\<close>

definition job_lines :: "JobEntry \<Rightarrow> str list" where
  \<open>job_lines job =
     (lit ''<div class="title">'' @ title job @ lit '' '' @ [0xE2, 0x20AC, 0x201D] @ lit '' '' @
        company job @ lit ''</div>'') #
     (lit ''<div class="meta">'' @ JobEntry.start_date job @ lit '' '' @
        [0xE2, 0x20AC, 0x201D] @ lit '' '' @
        py_or (JobEntry.end_date job) (lit ''Present'') @ lit '' '' @ [0xC2, 0xB7] @ lit '' '' @
        JobEntry.location job @ lit ''</div>'') #
     map (\<lambda>r. lit ''<li>'' @ r @ lit ''</li>'') (responsibilities job)\<close>

definition education_lines :: "EducationEntry \<Rightarrow> str list" where
  \<open>education_lines e =
     (lit ''<div class="title">'' @ degree e @ lit '' '' @ [0xE2, 0x20AC, 0x201D] @ lit '' '' @
        institution e @ lit ''</div>'') #
     (lit ''<div class="meta">'' @ EducationEntry.start_date e @ lit '' '' @
        [0xE2, 0x20AC, 0x201D] @ lit '' '' @ EducationEntry.end_date e @ lit '' '' @
        [0xC2, 0xB7] @ lit '' '' @ EducationEntry.location e @ lit ''</div>'') #
     (if details e = [] then [] else [lit ''<div>'' @ details e @ lit ''</div>''])\<close>

definition project_lines :: "ProjectEntry \<Rightarrow> str list" where
  \<open>project_lines p =
     (lit ''<div class="title">'' @ ProjectEntry.name p @ lit ''</div>'') #
     ((if link p = [] then [] else [lit ''<div class="meta">'' @ link p @ lit ''</div>'']) @
      (if description p = [] then [] else [lit ''<div>'' @ description p @ lit ''</div>'']) @
      map (\<lambda>pt. lit ''<li>'' @ pt @ lit ''</li>'') (points p))\<close>

text \<open>All the lines of the sequences of a record, in the order of the template of
  resume.py: experience, education, projects, skills, strengths.\<close>

definition page_lines :: "ResumeRecord \<Rightarrow> str list" where
  \<open>page_lines d =
     concat (map job_lines (experience d)) @
     concat (map education_lines (education d)) @
     concat (map project_lines (projects d)) @
     map (\<lambda>s. lit ''<li>'' @ s @ lit ''</li>'') (skills d) @
     map (\<lambda>s. lit ''<li>'' @ s @ lit ''</li>'') (strengths d)\<close>

text \<open>The same for the template of resume1.py, which shows neither a job's location
  nor a degree's location and details nor a project's link, and whose order is skills,
  strengths, education, experience, projects.\<close>

definition job_lines1 :: "JobEntry \<Rightarrow> str list" where
  \<open>job_lines1 job =
     (lit ''<div class="title">'' @ title job @ lit ''</div>'') #
     (lit ''<div>'' @ company job @ lit '' '' @ [0xB7] @ lit '' '' @
        JobEntry.start_date job @ lit '' '' @ [0x2014] @ lit '' '' @
        py_or (JobEntry.end_date job) (lit ''Present'') @ lit ''</div>'') #
     map (\<lambda>r. lit ''<li>'' @ r @ lit ''</li>'') (responsibilities job)\<close>

definition education_lines1 :: "EducationEntry \<Rightarrow> str list" where
  \<open>education_lines1 e =
     [lit ''<div><b>'' @ degree e @ lit ''</b><br>'' @ institution e @ lit ''<br>'' @
        EducationEntry.start_date e @ lit '' - '' @ EducationEntry.end_date e @
        lit ''</div>'']\<close>

definition project_lines1 :: "ProjectEntry \<Rightarrow> str list" where
  \<open>project_lines1 p =
     (lit ''<div class="title">'' @ ProjectEntry.name p @ lit ''</div>'') #
     ((if description p = [] then [] else [lit ''<p>'' @ description p @ lit ''</p>'']) @
      map (\<lambda>pt. lit ''<li>'' @ pt @ lit ''</li>'') (points p))\<close>

definition page_lines1 :: "ResumeRecord \<Rightarrow> str list" where
  \<open>page_lines1 d =
     map (\<lambda>s. lit ''<li>'' @ s @ lit ''</li>'') (skills d) @
     map (\<lambda>s. lit ''<li>'' @ s @ lit ''</li>'') (strengths d) @
     concat (map education_lines1 (education d)) @
     concat (map job_lines1 (experience d)) @
     concat (map project_lines1 (projects d))\<close>

section \<open>Order inside an entry\<close>

lemma responsibility_li: "sublist (lit ''<li>'' @ x @ lit ''</li>'') (responsibility_item x)"
  unfolding responsibility_item_def
  by ((rule sublist_prefixI, ((rule prefix_step)+)?,
        (rule prefix_end | rule prefix_order.refl))
      | rule sublist_skip)+

lemma point_li: "sublist (lit ''<li>'' @ x @ lit ''</li>'') (point_item x)"
  unfolding point_item_def
  by ((rule sublist_prefixI, ((rule prefix_step)+)?,
        (rule prefix_end | rule prefix_order.refl))
      | rule sublist_skip)+

lemma skill_li: "sublist (lit ''<li>'' @ x @ lit ''</li>'') (skill_item x)"
  unfolding skill_item_def
  by ((rule sublist_prefixI, ((rule prefix_step)+)?,
        (rule prefix_end | rule prefix_order.refl))
      | rule sublist_skip)+

lemma strength_li: "sublist (lit ''<li>'' @ x @ lit ''</li>'') (strength_item x)"
  unfolding strength_item_def
  by ((rule sublist_prefixI, ((rule prefix_step)+)?,
        (rule prefix_end | rule prefix_order.refl))
      | rule sublist_skip)+

lemma responsibility_li1: "sublist (lit ''<li>'' @ x @ lit ''</li>'') (responsibility_item1 x)"
  unfolding responsibility_item1_def
  by ((rule sublist_prefixI, ((rule prefix_step)+)?,
        (rule prefix_end | rule prefix_order.refl))
      | rule sublist_skip)+

lemma point_li1: "sublist (lit ''<li>'' @ x @ lit ''</li>'') (point_item1 x)"
  unfolding point_item1_def
  by ((rule sublist_prefixI, ((rule prefix_step)+)?,
        (rule prefix_end | rule prefix_order.refl))
      | rule sublist_skip)+

lemma skill_li1: "sublist (lit ''<li>'' @ x @ lit ''</li>'') (skill_item1 x)"
  unfolding skill_item1_def
  by ((rule sublist_prefixI, ((rule prefix_step)+)?,
        (rule prefix_end | rule prefix_order.refl))
      | rule sublist_skip)+

lemma strength_li1: "sublist (lit ''<li>'' @ x @ lit ''</li>'') (strength_item1 x)"
  unfolding strength_item1_def
  by ((rule sublist_prefixI, ((rule prefix_step)+)?,
        (rule prefix_end | rule prefix_order.refl))
      | rule sublist_skip)+

lemma job_item_lines_order: "in_order (job_lines job) (job_item job)"
  unfolding job_lines_def job_item_def
  apply (simp only: py_or_Nil)?
  apply ((rule in_order_nil
        | (rule at_head_in_order, ((rule at_head_step | rule at_head_step_Cons)+)?,
           rule at_head_last)
        | rule in_order_opt_line | rule in_order_opt_line_last
        | (rule in_order_opt_map, rule responsibility_li)
        | (rule in_order_pad, rule in_order_map, rule responsibility_li)
        | rule in_order_skip | rule in_order_skip_Cons)+)
  done

lemma education_item_lines_order: "in_order (education_lines e) (education_item e)"
  unfolding education_lines_def education_item_def
  apply (simp only: py_or_Nil)?
  apply ((rule in_order_nil
        | (rule at_head_in_order, ((rule at_head_step | rule at_head_step_Cons)+)?,
           rule at_head_last)
        | rule in_order_opt_line | rule in_order_opt_line_last
        | (rule in_order_opt_map, rule responsibility_li)
        | (rule in_order_pad, rule in_order_map, rule responsibility_li)
        | rule in_order_skip | rule in_order_skip_Cons)+)
  done

lemma project_item_lines_order: "in_order (project_lines p) (project_item p)"
  unfolding project_lines_def project_item_def
  apply (simp only: py_or_Nil)?
  apply ((rule in_order_nil
        | (rule at_head_in_order, ((rule at_head_step | rule at_head_step_Cons)+)?,
           rule at_head_last)
        | rule in_order_opt_line | rule in_order_opt_line_last
        | (rule in_order_opt_map, rule point_li)
        | (rule in_order_pad, rule in_order_map, rule point_li)
        | rule in_order_skip | rule in_order_skip_Cons)+)
  done

lemma job_item_lines_order1: "in_order (job_lines1 job) (job_item1 job)"
  unfolding job_lines1_def job_item1_def
  apply (simp only: py_or_Nil)?
  apply ((rule in_order_nil
        | (rule at_head_in_order, ((rule at_head_step | rule at_head_step_Cons)+)?,
           rule at_head_last)
        | rule in_order_opt_line | rule in_order_opt_line_last
        | (rule in_order_opt_map, rule responsibility_li1)
        | (rule in_order_pad, rule in_order_map, rule responsibility_li1)
        | rule in_order_skip | rule in_order_skip_Cons)+)
  done

lemma education_item_lines_order1: "in_order (education_lines1 e) (education_item1 e)"
  unfolding education_lines1_def education_item1_def
  apply (simp only: py_or_Nil)?
  apply ((rule in_order_nil
        | (rule at_head_in_order, ((rule at_head_step | rule at_head_step_Cons)+)?,
           rule at_head_last)
        | rule in_order_opt_line | rule in_order_opt_line_last
        | (rule in_order_opt_map, rule responsibility_li1)
        | (rule in_order_pad, rule in_order_map, rule responsibility_li1)
        | rule in_order_skip | rule in_order_skip_Cons)+)
  done

lemma project_item_lines_order1: "in_order (project_lines1 p) (project_item1 p)"
  unfolding project_lines1_def project_item1_def
  apply (simp only: py_or_Nil)?
  apply ((rule in_order_nil
        | (rule at_head_in_order, ((rule at_head_step | rule at_head_step_Cons)+)?,
           rule at_head_last)
        | rule in_order_opt_line | rule in_order_opt_line_last
        | (rule in_order_opt_map, rule point_li1)
        | (rule in_order_pad, rule in_order_map, rule point_li1)
        | rule in_order_skip | rule in_order_skip_Cons)+)
  done

section \<open>Order inside a section and in the page\<close>

lemma experience_lines_order: "in_order (concat (map job_lines (experience d))) (experience_section d)"
proof (cases "experience d = []")
  case True
  then show ?thesis by (simp add: in_order_nil)
next
  case False
  then show ?thesis
    unfolding experience_section_def
    apply (simp only: truthy_def if_True not_False_eq_True simp_thms)
    apply ((rule in_order_nil
          | (rule in_order_pad, rule in_order_concat_map, rule job_item_lines_order)
          | rule in_order_skip)+)
    done
qed

lemma education_lines_order: "in_order (concat (map education_lines (education d))) (education_section d)"
proof (cases "education d = []")
  case True
  then show ?thesis by (simp add: in_order_nil)
next
  case False
  then show ?thesis
    unfolding education_section_def
    apply (simp only: truthy_def if_True not_False_eq_True simp_thms)
    apply ((rule in_order_nil
          | (rule in_order_pad, rule in_order_concat_map, rule education_item_lines_order)
          | rule in_order_skip)+)
    done
qed

lemma projects_lines_order: "in_order (concat (map project_lines (projects d))) (projects_section d)"
proof (cases "projects d = []")
  case True
  then show ?thesis by (simp add: in_order_nil)
next
  case False
  then show ?thesis
    unfolding projects_section_def
    apply (simp only: truthy_def if_True not_False_eq_True simp_thms)
    apply ((rule in_order_nil
          | (rule in_order_pad, rule in_order_concat_map, rule project_item_lines_order)
          | rule in_order_skip)+)
    done
qed

lemma skills_lines_order: "in_order (map (\<lambda>s. lit ''<li>'' @ s @ lit ''</li>'') (skills d)) (skills_section d)"
proof (cases "skills d = []")
  case True
  then show ?thesis by (simp add: in_order_nil)
next
  case False
  then show ?thesis
    unfolding skills_section_def
    apply (simp only: truthy_def if_True not_False_eq_True simp_thms)
    apply ((rule in_order_nil
          | (rule in_order_pad, rule in_order_map, rule skill_li)
          | rule in_order_skip)+)
    done
qed

lemma strengths_lines_order: "in_order (map (\<lambda>s. lit ''<li>'' @ s @ lit ''</li>'') (strengths d)) (strengths_section d)"
proof (cases "strengths d = []")
  case True
  then show ?thesis by (simp add: in_order_nil)
next
  case False
  then show ?thesis
    unfolding strengths_section_def
    apply (simp only: truthy_def if_True not_False_eq_True simp_thms)
    apply ((rule in_order_nil
          | (rule in_order_pad, rule in_order_map, rule strength_li)
          | rule in_order_skip)+)
    done
qed

lemma experience_lines_order1: "in_order (concat (map job_lines1 (experience d))) (experience_section1 d)"
proof (cases "experience d = []")
  case True
  then show ?thesis by (simp add: in_order_nil)
next
  case False
  then show ?thesis
    unfolding experience_section1_def
    apply (simp only: truthy_def if_True not_False_eq_True simp_thms)
    apply ((rule in_order_nil
          | (rule in_order_pad, rule in_order_concat_map, rule job_item_lines_order1)
          | rule in_order_skip)+)
    done
qed

lemma education_lines_order1: "in_order (concat (map education_lines1 (education d))) (education_section1 d)"
proof (cases "education d = []")
  case True
  then show ?thesis by (simp add: in_order_nil)
next
  case False
  then show ?thesis
    unfolding education_section1_def
    apply (simp only: truthy_def if_True not_False_eq_True simp_thms)
    apply ((rule in_order_nil
          | (rule in_order_pad, rule in_order_concat_map, rule education_item_lines_order1)
          | rule in_order_skip)+)
    done
qed

lemma projects_lines_order1: "in_order (concat (map project_lines1 (projects d))) (projects_section1 d)"
proof (cases "projects d = []")
  case True
  then show ?thesis by (simp add: in_order_nil)
next
  case False
  then show ?thesis
    unfolding projects_section1_def
    apply (simp only: truthy_def if_True not_False_eq_True simp_thms)
    apply ((rule in_order_nil
          | (rule in_order_pad, rule in_order_concat_map, rule project_item_lines_order1)
          | rule in_order_skip)+)
    done
qed

lemma skills_lines_order1: "in_order (map (\<lambda>s. lit ''<li>'' @ s @ lit ''</li>'') (skills d)) (skills_section1 d)"
proof (cases "skills d = []")
  case True
  then show ?thesis by (simp add: in_order_nil)
next
  case False
  then show ?thesis
    unfolding skills_section1_def
    apply (simp only: truthy_def if_True not_False_eq_True simp_thms)
    apply ((rule in_order_nil
          | (rule in_order_pad, rule in_order_map, rule skill_li1)
          | rule in_order_skip)+)
    done
qed

lemma strengths_lines_order1: "in_order (map (\<lambda>s. lit ''<li>'' @ s @ lit ''</li>'') (strengths d)) (strengths_section1 d)"
proof (cases "strengths d = []")
  case True
  then show ?thesis by (simp add: in_order_nil)
next
  case False
  then show ?thesis
    unfolding strengths_section1_def
    apply (simp only: truthy_def if_True not_False_eq_True simp_thms)
    apply ((rule in_order_nil
          | (rule in_order_pad, rule in_order_map, rule strength_li1)
          | rule in_order_skip)+)
    done
qed

lemma page_lines_order: "in_order (page_lines d) (TEMPLATE_render css g d)"
  unfolding page_lines_def TEMPLATE_render_def
  apply (((rule in_order_append, rule experience_lines_order)
        | (rule in_order_append, rule education_lines_order)
        | (rule in_order_append, rule projects_lines_order)
        | (rule in_order_append, rule skills_lines_order)
        | (rule in_order_pad, rule strengths_lines_order)
        | rule in_order_skip)+)
  done

lemma page_lines_order1: "in_order (page_lines1 d) (TEMPLATE1_render css d)"
  unfolding page_lines1_def TEMPLATE1_render_def
  apply (((rule in_order_append, rule skills_lines_order1)
        | (rule in_order_append, rule strengths_lines_order1)
        | (rule in_order_append, rule education_lines_order1)
        | (rule in_order_append, rule experience_lines_order1)
        | (rule in_order_pad, rule projects_lines_order1)
        | rule in_order_skip)+)
  done

section \<open>The end date of a job\<close>

text \<open>
  Claim C4. For every job of the record the page holds the job's dates line, and in it,
  between the dash after the start date and what follows the dates, the text
  \<^verbatim>\<open>Present\<close> when the end date is empty and the end date itself, unchanged,
  otherwise. (In resume.py the dash and the dot of the template are the characters its
  source file holds: the UTF-8 bytes of a dash and of a middle dot read as Windows-1252.)
\<close>

theorem end_date_or_present:
  "job \<in> set (experience d) \<longrightarrow>
     sublist (lit ''<div class=\"meta\">'' @ JobEntry.start_date job @ lit '' '' @
              [0xE2, 0x20AC, 0x201D] @ lit '' '' @
              (if JobEntry.end_date job = [] then lit ''Present'' else JobEntry.end_date job) @
              lit '' '' @ [0xC2, 0xB7] @ lit '' '')
       (render_html now d css) \<and>
     sublist (lit '' '' @ [0x2014] @ lit '' '' @
              (if JobEntry.end_date job = [] then lit ''Present'' else JobEntry.end_date job) @
              lit ''</div>'')
       (TEMPLATE1_render css d)"
proof (intro impI conjI)
  assume j: "job \<in> set (experience d)"
  have e: "py_or (JobEntry.end_date job) (lit ''Present'') =
      (if JobEntry.end_date job = [] then lit ''Present'' else JobEntry.end_date job)"
    by (simp add: py_or_def truthy_def)
  have "sublist (lit ''<div class=\"meta\">'' @ JobEntry.start_date job @ lit '' '' @
              [0xE2, 0x20AC, 0x201D] @ lit '' '' @
              py_or (JobEntry.end_date job) (lit ''Present'') @
              lit '' '' @ [0xC2, 0xB7] @ lit '' '') (job_item job)"
    unfolding job_item_def
    by ((rule sublist_prefixI, ((rule prefix_step)+)?,
          (rule prefix_end | rule prefix_order.refl))
        | rule sublist_skip)+
  then have "sublist (lit ''<div class=\"meta\">'' @ JobEntry.start_date job @ lit '' '' @
              [0xE2, 0x20AC, 0x201D] @ lit '' '' @
              py_or (JobEntry.end_date job) (lit ''Present'') @
              lit '' '' @ [0xC2, 0xB7] @ lit '' '') (TEMPLATE_render css (strftime now) d)"
    by (rule sublist_trans[OF _ sublist_trans[OF job_in_section[OF j] experience_section_shown]])
  then show "sublist (lit ''<div class=\"meta\">'' @ JobEntry.start_date job @ lit '' '' @
              [0xE2, 0x20AC, 0x201D] @ lit '' '' @
              (if JobEntry.end_date job = [] then lit ''Present'' else JobEntry.end_date job) @
              lit '' '' @ [0xC2, 0xB7] @ lit '' '')
       (render_html now d css)"
    by (simp only: e render_html_def)
  have "sublist (lit '' '' @ [0x2014] @ lit '' '' @
              py_or (JobEntry.end_date job) (lit ''Present'') @ lit ''</div>'') (job_item1 job)"
    unfolding job_item1_def
    by ((rule sublist_prefixI, ((rule prefix_step)+)?,
          (rule prefix_end | rule prefix_order.refl))
        | rule sublist_skip)+
  then have "sublist (lit '' '' @ [0x2014] @ lit '' '' @
              py_or (JobEntry.end_date job) (lit ''Present'') @ lit ''</div>'')
       (TEMPLATE1_render css d)"
    by (rule sublist_trans[OF _ sublist_trans[OF job_in_section1[OF j] experience_section_shown1]])
  then show "sublist (lit '' '' @ [0x2014] @ lit '' '' @
              (if JobEntry.end_date job = [] then lit ''Present'' else JobEntry.end_date job) @
              lit ''</div>'')
       (TEMPLATE1_render css d)"
    by (simp only: e)
qed

theorem end_date_or_present_witness:
  "hd (experience session_record) \<in> set (experience session_record) \<and>
   JobEntry.end_date (hd (experience session_record)) = [] \<and>
   sublist (lit ''<div class=\"meta\">2020 '' @ [0xE2, 0x20AC, 0x201D] @ lit '' Present '' @
            [0xC2, 0xB7] @ lit '' '')
     (render_html sample_time session_record CSS) \<and>
   sublist (lit '' '' @ [0x2014] @ lit '' Present</div>'') (TEMPLATE1_render CSS1 session_record) \<and>
   hd (experience abc_record) \<in> set (experience abc_record) \<and>
   JobEntry.end_date (hd (experience abc_record)) = lit ''2018'' \<and>
   sublist (lit '' '' @ [0x2014] @ lit '' 2018</div>'') (TEMPLATE1_render CSS1 abc_record)"
proof -
  have m: "hd (experience session_record) \<in> set (experience session_record)"
    by (simp add: session_record_def)
  have e: "JobEntry.end_date (hd (experience session_record)) = []"
    by (simp add: session_record_def)
  have s: "JobEntry.start_date (hd (experience session_record)) = lit ''2020''"
    by (simp add: session_record_def)
  have m': "hd (experience abc_record) \<in> set (experience abc_record)"
    by (simp add: abc_record_def)
  have e': "JobEntry.end_date (hd (experience abc_record)) = lit ''2018''"
    by (simp add: abc_record_def)
  have ne: "lit ''2018'' \<noteq> []" by (simp add: lit_def)
  have l1: "lit ''<div class=\"meta\">'' @ lit ''2020'' @ lit '' '' @ [0xE2, 0x20AC, 0x201D] @
      lit '' '' @ lit ''Present'' @ lit '' '' @ [0xC2, 0xB7] @ lit '' '' =
      lit ''<div class=\"meta\">2020 '' @ [0xE2, 0x20AC, 0x201D] @ lit '' Present '' @
            [0xC2, 0xB7] @ lit '' ''"
    by (simp add: lit_def)
  have l2: "lit '' '' @ [0x2014] @ lit '' '' @ lit ''Present'' @ lit ''</div>'' =
      lit '' '' @ [0x2014] @ lit '' Present</div>''"
    by (simp add: lit_def)
  have l3: "lit '' '' @ [0x2014] @ lit '' '' @ lit ''2018'' @ lit ''</div>'' =
      lit '' '' @ [0x2014] @ lit '' 2018</div>''"
    by (simp add: lit_def)
  note a = end_date_or_present[of "hd (experience session_record)" session_record sample_time CSS]
  note b = end_date_or_present[of "hd (experience session_record)" session_record sample_time CSS1]
  note c = end_date_or_present[of "hd (experience abc_record)" abc_record sample_time CSS1]
  from a m have "sublist (lit ''<div class=\"meta\">'' @ lit ''2020'' @ lit '' '' @
      [0xE2, 0x20AC, 0x201D] @ lit '' '' @ lit ''Present'' @ lit '' '' @ [0xC2, 0xB7] @ lit '' '')
     (render_html sample_time session_record CSS)"
    by (simp only: e s if_True simp_thms)
  then have 1: "sublist (lit ''<div class=\"meta\">2020 '' @ [0xE2, 0x20AC, 0x201D] @
      lit '' Present '' @ [0xC2, 0xB7] @ lit '' '') (render_html sample_time session_record CSS)"
    by (simp only: l1)
  from b m have "sublist (lit '' '' @ [0x2014] @ lit '' '' @ lit ''Present'' @ lit ''</div>'')
      (TEMPLATE1_render CSS1 session_record)"
    by (simp only: e s if_True simp_thms)
  then have 2: "sublist (lit '' '' @ [0x2014] @ lit '' Present</div>'')
      (TEMPLATE1_render CSS1 session_record)"
    by (simp only: l2)
  from c m' have "sublist (lit '' '' @ [0x2014] @ lit '' '' @ lit ''2018'' @ lit ''</div>'')
      (TEMPLATE1_render CSS1 abc_record)"
    by (simp only: e' ne if_False simp_thms)
  then have 3: "sublist (lit '' '' @ [0x2014] @ lit '' 2018</div>'')
      (TEMPLATE1_render CSS1 abc_record)"
    by (simp only: l3)
  from m e 1 2 m' e' 3 show ?thesis by blast
qed

section \<open>Order of the record is the order of the page\<close>

lemma job_lines_nonempty: "[] \<notin> set (job_lines job)"
  by (auto simp: job_lines_def lit_def)

lemma education_lines_nonempty: "[] \<notin> set (education_lines e)"
  by (auto simp: education_lines_def lit_def)

lemma project_lines_nonempty: "[] \<notin> set (project_lines p)"
  by (auto simp: project_lines_def lit_def)

lemma job_lines_nonempty1: "[] \<notin> set (job_lines1 job)"
  by (auto simp: job_lines1_def lit_def)

lemma education_lines_nonempty1: "[] \<notin> set (education_lines1 e)"
  by (auto simp: education_lines1_def lit_def)

lemma project_lines_nonempty1: "[] \<notin> set (project_lines1 p)"
  by (auto simp: project_lines1_def lit_def)

lemma page_lines_nonempty: "[] \<notin> set (page_lines d)"
  using job_lines_nonempty education_lines_nonempty project_lines_nonempty
  by (auto simp: page_lines_def lit_def)

lemma page_lines_nonempty1: "[] \<notin> set (page_lines1 d)"
  using job_lines_nonempty1 education_lines_nonempty1 project_lines_nonempty1
  by (auto simp: page_lines1_def lit_def)

text \<open>A record with an empty strength between two others.\<close>

definition gaps_record :: ResumeRecord where
  "gaps_record = (minimal_record (lit ''Jane Doe''))\<lparr>strengths := [lit ''Calm'', [], lit ''Kind'']\<rparr>"

text \<open>
  Claim C8. In both pages the lines of all elements of the record's sequences (the jobs
  with their responsibilities, the degrees, the projects with their points, the skills
  and the strengths) occur whole, one after the other and without overlap, in the order
  of the sequences. A line holds the element's texts between the tags of the template
  and is never empty, so that an element whose text is empty has its line too: no
  element is dropped, cut short or moved. The same holds of every sequence on its own.
\<close>

theorem order_preserved:
  "in_order (page_lines d) (render_html now d css) \<and>
   [] \<notin> set (page_lines d) \<and>
   in_order (concat (map job_lines (experience d))) (render_html now d css) \<and>
   in_order (concat (map education_lines (education d))) (render_html now d css) \<and>
   in_order (concat (map project_lines (projects d))) (render_html now d css) \<and>
   in_order (map (\<lambda>s. lit ''<li>'' @ s @ lit ''</li>'') (skills d)) (render_html now d css) \<and>
   in_order (map (\<lambda>s. lit ''<li>'' @ s @ lit ''</li>'') (strengths d)) (render_html now d css) \<and>
   in_order (page_lines1 d) (TEMPLATE1_render css d) \<and>
   [] \<notin> set (page_lines1 d) \<and>
   in_order (map (\<lambda>s. lit ''<li>'' @ s @ lit ''</li>'') (skills d)) (TEMPLATE1_render css d) \<and>
   in_order (map (\<lambda>s. lit ''<li>'' @ s @ lit ''</li>'') (strengths d)) (TEMPLATE1_render css d) \<and>
   in_order (concat (map education_lines1 (education d))) (TEMPLATE1_render css d) \<and>
   in_order (concat (map job_lines1 (experience d))) (TEMPLATE1_render css d) \<and>
   in_order (concat (map project_lines1 (projects d))) (TEMPLATE1_render css d)"
proof -
  have p: "in_order (page_lines d) (TEMPLATE_render css (strftime now) d)"
    by (rule page_lines_order)
  have p1: "in_order (page_lines1 d) (TEMPLATE1_render css d)"
    by (rule page_lines_order1)
  note a = p[unfolded page_lines_def]
  note b = in_order_appendD2[OF a]
  note c = in_order_appendD2[OF b]
  note e = in_order_appendD2[OF c]
  note a1 = p1[unfolded page_lines1_def]
  note b1 = in_order_appendD2[OF a1]
  note c1 = in_order_appendD2[OF b1]
  note e1 = in_order_appendD2[OF c1]
  show ?thesis
    unfolding render_html_def
    by (intro conjI p p1 page_lines_nonempty page_lines_nonempty1
        in_order_appendD1[OF a] in_order_appendD1[OF b] in_order_appendD1[OF c]
        in_order_appendD1[OF e] in_order_appendD2[OF e]
        in_order_appendD1[OF a1] in_order_appendD1[OF b1] in_order_appendD1[OF c1]
        in_order_appendD1[OF e1] in_order_appendD2[OF e1])
qed

theorem order_preserved_witness:
  \<open>page_lines1 abc_record =
     [lit ''<div class="title">A</div>'',
      lit ''<div>Acme '' @ [0xB7] @ lit '' 2015 '' @ [0x2014] @ lit '' 2018</div>'',
      lit ''<li>Built X</li>'', lit ''<li>Shipped Y</li>'',
      lit ''<div class="title">B</div>'',
      lit ''<div>Bolt '' @ [0xB7] @ lit '' 2018 '' @ [0x2014] @ lit '' 2020</div>'',
      lit ''<div class="title">C</div>'',
      lit ''<div>Core '' @ [0xB7] @ lit '' 2020 '' @ [0x2014] @ lit '' Present</div>''] \<and>
   in_order
     [lit ''<div class="title">A</div>'',
      lit ''<div>Acme '' @ [0xB7] @ lit '' 2015 '' @ [0x2014] @ lit '' 2018</div>'',
      lit ''<li>Built X</li>'', lit ''<li>Shipped Y</li>'',
      lit ''<div class="title">B</div>'',
      lit ''<div>Bolt '' @ [0xB7] @ lit '' 2018 '' @ [0x2014] @ lit '' 2020</div>'',
      lit ''<div class="title">C</div>'',
      lit ''<div>Core '' @ [0xB7] @ lit '' 2020 '' @ [0x2014] @ lit '' Present</div>'']
     (TEMPLATE1_render CSS1 abc_record) \<and>
   in_order [lit ''<li>Calm</li>'', lit ''<li></li>'', lit ''<li>Kind</li>'']
     (render_html sample_time gaps_record CSS) \<and>
   in_order [lit ''<li>Calm</li>'', lit ''<li></li>'', lit ''<li>Kind</li>'']
     (TEMPLATE1_render CSS1 gaps_record)\<close>
proof -
  have pl: \<open>page_lines1 abc_record =
     [lit ''<div class="title">A</div>'',
      lit ''<div>Acme '' @ [0xB7] @ lit '' 2015 '' @ [0x2014] @ lit '' 2018</div>'',
      lit ''<li>Built X</li>'', lit ''<li>Shipped Y</li>'',
      lit ''<div class="title">B</div>'',
      lit ''<div>Bolt '' @ [0xB7] @ lit '' 2018 '' @ [0x2014] @ lit '' 2020</div>'',
      lit ''<div class="title">C</div>'',
      lit ''<div>Core '' @ [0xB7] @ lit '' 2020 '' @ [0x2014] @ lit '' Present</div>'']\<close>
    by (simp add: page_lines1_def abc_record_def minimal_record_def job_lines1_def
        py_or_def truthy_def lit_def)
  have st: "map (\<lambda>s. lit ''<li>'' @ s @ lit ''</li>'') (strengths gaps_record) =
      [lit ''<li>Calm</li>'', lit ''<li></li>'', lit ''<li>Kind</li>'']"
    by (simp add: gaps_record_def lit_def)
  from order_preserved[of abc_record sample_time CSS1]
  have 1: "in_order (page_lines1 abc_record) (TEMPLATE1_render CSS1 abc_record)"
    by blast
  from order_preserved[of gaps_record sample_time CSS]
  have 2: "in_order (map (\<lambda>s. lit ''<li>'' @ s @ lit ''</li>'') (strengths gaps_record))
      (render_html sample_time gaps_record CSS)"
    by blast
  from order_preserved[of gaps_record sample_time CSS1]
  have 3: "in_order (map (\<lambda>s. lit ''<li>'' @ s @ lit ''</li>'') (strengths gaps_record))
      (TEMPLATE1_render CSS1 gaps_record)"
    by blast
  from pl 1 2 3 show ?thesis
    unfolding st by (simp only: simp_thms)
qed

section \<open>The footer stamp\<close>

definition isdigit :: "nat \<Rightarrow> bool" where
  "isdigit c = (48 \<le> c \<and> c \<le> 57)"

text \<open>The shape \<^verbatim>\<open>YYYY-MM-DD HH:MM UTC\<close>: twenty characters, digits where the letters
  stand and the other characters as they are.\<close>

definition is_stamp :: "str \<Rightarrow> bool" where
  "is_stamp s =
     (length s = 20 \<and>
      list_all isdigit (take 4 s) \<and> s ! 4 = 45 \<and>
      list_all isdigit (take 2 (drop 5 s)) \<and> s ! 7 = 45 \<and>
      list_all isdigit (take 2 (drop 8 s)) \<and> s ! 10 = 32 \<and>
      list_all isdigit (take 2 (drop 11 s)) \<and> s ! 13 = 58 \<and>
      list_all isdigit (take 2 (drop 14 s)) \<and> drop 16 s = lit '' UTC'')"

lemma decimal_lt10: "n < 10 \<Longrightarrow> decimal n = [48 + n]"
  by (subst decimal.simps) simp

lemma decimal_step: "10 \<le> n \<Longrightarrow> decimal n = decimal (n div 10) @ [48 + n mod 10]"
  by (subst decimal.simps) simp

lemma decimal_lt100: "10 \<le> n \<Longrightarrow> n < 100 \<Longrightarrow> decimal n = [48 + n div 10, 48 + n mod 10]"
proof -
  assume a: "10 \<le> n" "n < 100"
  then have "n div 10 < 10" by simp
  then show ?thesis using a by (simp add: decimal_step decimal_lt10)
qed

lemma decimal_lt1000:
  "100 \<le> n \<Longrightarrow> n < 1000 \<Longrightarrow>
     decimal n = [48 + n div 100, 48 + n div 10 mod 10, 48 + n mod 10]"
proof -
  assume a: "100 \<le> n" "n < 1000"
  then have b: "10 \<le> n div 10" "n div 10 < 100" by simp_all
  have c: "n div 10 div 10 = n div 100" by (simp add: div_mult2_eq[symmetric])
  from a have "decimal n = decimal (n div 10) @ [48 + n mod 10]"
    by (simp add: decimal_step)
  then show ?thesis by (simp add: decimal_lt100[OF b] c)
qed

lemma decimal_lt10000:
  "1000 \<le> n \<Longrightarrow> n < 10000 \<Longrightarrow>
     decimal n = [48 + n div 1000, 48 + n div 100 mod 10, 48 + n div 10 mod 10, 48 + n mod 10]"
proof -
  assume a: "1000 \<le> n" "n < 10000"
  then have b: "100 \<le> n div 10" "n div 10 < 1000" by simp_all
  have c: "n div 10 div 100 = n div 1000" "n div 10 div 10 = n div 100"
    by (simp_all add: div_mult2_eq[symmetric])
  from a have "decimal n = decimal (n div 10) @ [48 + n mod 10]"
    by (simp add: decimal_step)
  then show ?thesis by (simp add: decimal_lt1000[OF b] c)
qed

lemma two_digits: "n < 100 \<Longrightarrow> zfill 2 (decimal n) = [48 + n div 10, 48 + n mod 10]"
proof (cases "n < 10")
  case True
  then show ?thesis by (simp add: zfill_def decimal_lt10)
next
  case False
  assume "n < 100"
  with False show ?thesis by (simp add: zfill_def decimal_lt100)
qed

lemma four_digits:
  "1000 \<le> n \<Longrightarrow> n < 10000 \<Longrightarrow>
     zfill 4 (decimal n) =
       [48 + n div 1000, 48 + n div 100 mod 10, 48 + n div 10 mod 10, 48 + n mod 10]"
  by (simp add: zfill_def decimal_lt10000)

lemma digit_mod: "isdigit (48 + n mod 10)"
  by (simp add: isdigit_def)

lemma strftime_shape:
  assumes "valid_datetime t" and "1000 \<le> year t"
  shows "is_stamp (strftime t)"
proof -
  from assms have y: "1000 \<le> year t" "year t < 10000" and m: "month t < 100"
    and d: "day t < 100" and h: "hour t < 100" and mi: "minute t < 100"
    by (simp_all add: valid_datetime_def)
  have dg: "\<And>n. n < 100 \<Longrightarrow> isdigit (48 + n div 10)"
    by (simp add: isdigit_def) 
  have dy: "isdigit (48 + year t div 1000)"
    using y by (simp add: isdigit_def)
  show ?thesis
    unfolding strftime_def is_stamp_def
    by (simp add: four_digits[OF y] two_digits[OF m] two_digits[OF d] two_digits[OF h]
          two_digits[OF mi] lit_def digit_mod dg m d h mi dy)
qed

text \<open>
  Claim C7 says that the page of both variants has the footer stamp. The template of
  resume1.py has no footer and its \<^verbatim>\<open>render\<close> call passes no time: the page of the
  form holds neither \<^verbatim>\<open>Generated on\<close> nor \<^verbatim>\<open>UTC\<close>, which ends every stamp.
\<close>

theorem form_footer_counterexample:
  "\<not> sublist (lit ''UTC'') (form_html (blank_widgets\<lparr>w_name := lit ''Jane Doe''\<rparr>)) \<and>
   \<not> sublist (lit ''Generated on'') (form_html (blank_widgets\<lparr>w_name := lit ''Jane Doe''\<rparr>))"
  apply (simp add: form_html_def form_data_def form_experience_map form_projects_map
      form_education_def form_skills_concat skill_entry_def split_lines_def
      blank_widgets_def tpl1_defs item1_defs truthy_def py_or_def CSS1_def)
  apply (simp add: lit_def sublist_code)
  done

text \<open>A clock reading in the afternoon.\<close>

definition late_time :: datetime where
  "late_time = \<lparr>year = 2024, month = 11, day = 30, hour = 23, minute = 59\<rparr>"

text \<open>
  Claim C7, amended. The page of resume.py ends with the footer: its last division,
  followed only by the closing tags of the container, of the body and of the document,
  reads \<^verbatim>\<open>Generated on\<close> and the time \<^verbatim>\<open>utcnow()\<close> returned. For a time of the years
  1000 to 9999 that text is the four digits of the year, a hyphen, the two digits of the
  month, a hyphen, the two digits of the day, a space, the two digits of the hour (of
  24), a colon, the two digits of the minute and \<^verbatim>\<open> UTC\<close>: the shape
  \<^verbatim>\<open>YYYY-MM-DD HH:MM UTC\<close>. The page of resume1.py has no footer.
\<close>

theorem footer_stamp:
  "(valid_datetime now \<and> 1000 \<le> year now \<longrightarrow>
      strftime now =
        [48 + year now div 1000, 48 + year now div 100 mod 10, 48 + year now div 10 mod 10,
         48 + year now mod 10, 45,
         48 + month now div 10, 48 + month now mod 10, 45,
         48 + day now div 10, 48 + day now mod 10, 32,
         48 + hour now div 10, 48 + hour now mod 10, 58,
         48 + minute now div 10, 48 + minute now mod 10] @ lit '' UTC'' \<and>
      is_stamp (strftime now)) \<and>
   suffix (lit ''<div style=\"margin-top:20px; font-size:12px; color:#888\">Generated on '' @
           strftime now @ lit ''</div>'' @ lit ''\<newline>  '' @ lit ''</div>'' @
           lit ''\<newline>'' @ lit ''</body>'' @ lit ''\<newline>'' @ lit ''</html>'')
     (render_html now d css)"
proof (intro impI conjI)
  assume a: "valid_datetime now \<and> 1000 \<le> year now"
  then show "is_stamp (strftime now)" by (simp add: strftime_shape)
  from a have y: "1000 \<le> year now" "year now < 10000" and m: "month now < 100"
    and d: "day now < 100" and h: "hour now < 100" and mi: "minute now < 100"
    by (simp_all add: valid_datetime_def)
  show "strftime now =
        [48 + year now div 1000, 48 + year now div 100 mod 10, 48 + year now div 10 mod 10,
         48 + year now mod 10, 45,
         48 + month now div 10, 48 + month now mod 10, 45,
         48 + day now div 10, 48 + day now mod 10, 32,
         48 + hour now div 10, 48 + hour now mod 10, 58,
         48 + minute now div 10, 48 + minute now mod 10] @ lit '' UTC''"
    unfolding strftime_def
    by (simp add: four_digits[OF y] two_digits[OF m] two_digits[OF d] two_digits[OF h]
          two_digits[OF mi] lit_def)
next
  show "suffix (lit ''<div style=\"margin-top:20px; font-size:12px; color:#888\">Generated on '' @
           strftime now @ lit ''</div>'' @ lit ''\<newline>  '' @ lit ''</div>'' @
           lit ''\<newline>'' @ lit ''</body>'' @ lit ''\<newline>'' @ lit ''</html>'')
     (render_html now d css)"
    unfolding render_html_def TEMPLATE_render_def
    by (rule suffix_order.refl | rule suffix_appendI)+
qed

theorem footer_stamp_witness:
  "valid_datetime late_time \<and> 1000 \<le> year late_time \<and>
   strftime late_time = lit ''2024-11-30 23:59 UTC'' \<and>
   is_stamp (lit ''2024-11-30 23:59 UTC'') \<and>
   suffix (lit ''<div style=\"margin-top:20px; font-size:12px; color:#888\">Generated on '' @
           lit ''2024-11-30 23:59 UTC'' @ lit ''</div>'' @ lit ''\<newline>  '' @ lit ''</div>'' @
           lit ''\<newline>'' @ lit ''</body>'' @ lit ''\<newline>'' @ lit ''</html>'')
     (render_html late_time session_record CSS)"
proof -
  have v: "valid_datetime late_time \<and> 1000 \<le> year late_time"
    by (simp add: valid_datetime_def late_time_def)
  note a = footer_stamp[of late_time session_record CSS]
  from a v have "strftime late_time =
        [48 + year late_time div 1000, 48 + year late_time div 100 mod 10,
         48 + year late_time div 10 mod 10, 48 + year late_time mod 10, 45,
         48 + month late_time div 10, 48 + month late_time mod 10, 45,
         48 + day late_time div 10, 48 + day late_time mod 10, 32,
         48 + hour late_time div 10, 48 + hour late_time mod 10, 58,
         48 + minute late_time div 10, 48 + minute late_time mod 10] @ lit '' UTC''"
    by blast
  then have s: "strftime late_time = lit ''2024-11-30 23:59 UTC''"
    by (simp add: late_time_def lit_def)
  from a v have "is_stamp (strftime late_time)" by blast
  then have i: "is_stamp (lit ''2024-11-30 23:59 UTC'')" by (simp only: s)
  from a have "suffix (lit ''<div style=\"margin-top:20px; font-size:12px; color:#888\">Generated on '' @
           strftime late_time @ lit ''</div>'' @ lit ''\<newline>  '' @ lit ''</div>'' @
           lit ''\<newline>'' @ lit ''</body>'' @ lit ''\<newline>'' @ lit ''</html>'')
     (render_html late_time session_record CSS)"
    by blast
  then have f: "suffix (lit ''<div style=\"margin-top:20px; font-size:12px; color:#888\">Generated on '' @
           lit ''2024-11-30 23:59 UTC'' @ lit ''</div>'' @ lit ''\<newline>  '' @ lit ''</div>'' @
           lit ''\<newline>'' @ lit ''</body>'' @ lit ''\<newline>'' @ lit ''</html>'')
     (render_html late_time session_record CSS)"
    by (simp only: s)
  from v s i f show ?thesis by blast
qed

section \<open>The degenerate record\<close>

lemma suffix_skip: "suffix x b \<Longrightarrow> suffix x (a @ b)"
  by (rule suffix_appendI)

text \<open>
  Claim C9. Rendering is a total function of the record: the templates read only keys
  that every record has, and no expression of theirs can fail. Every page starts with
  the document type and the opening of the document, holds the name in its title and
  ends with the closing of the body and of the document. For the record with only a name
  every conditional part is empty and the page is the fixed minimal document below, with
  the name in the title and in the name heading.
\<close>

theorem minimal_page:
  \<open>prefix (lit ''\<newline>'' @ lit ''<!doctype html>'' @ lit ''\<newline>'' @ lit ''<html>'')
     (render_html now d css) \<and>
   sublist (lit ''<title>'' @ ResumeRecord.name d @ lit '' - Resume</title>'')
     (render_html now d css) \<and>
   suffix (lit ''</body>'' @ lit ''\<newline>'' @ lit ''</html>'') (render_html now d css) \<and>
   prefix (lit ''\<newline>'' @ lit ''<!doctype html>'' @ lit ''\<newline>'' @ lit ''<html>'')
     (TEMPLATE1_render css d) \<and>
   sublist (lit ''<title>'' @ ResumeRecord.name d @ lit '' - Resume</title>'')
     (TEMPLATE1_render css d) \<and>
   suffix (lit ''</body>'' @ lit ''\<newline>'' @ lit ''</html>'') (TEMPLATE1_render css d) \<and>
   tagline_part (minimal_record n) = [] \<and> email_part (minimal_record n) = [] \<and>
   phone_part (minimal_record n) = [] \<and> location_part (minimal_record n) = [] \<and>
   linkedin_part (minimal_record n) = [] \<and> github_part (minimal_record n) = [] \<and>
   summary_section (minimal_record n) = [] \<and> experience_section (minimal_record n) = [] \<and>
   education_section (minimal_record n) = [] \<and> projects_section (minimal_record n) = [] \<and>
   skills_section (minimal_record n) = [] \<and> strengths_section (minimal_record n) = [] \<and>
   render_html now (minimal_record n) css =
      lit ''\<newline><!doctype html>'' @
      lit ''\<newline><html>'' @
      lit ''\<newline><head>'' @
      lit ''\<newline>  <meta charset="utf-8">'' @
      lit ''\<newline>  <meta name="viewport" content="width=device-width,initial-scale=1">'' @
      lit ''\<newline>  <title>'' @
      n @
      lit '' - Resume</title>'' @
      lit ''\<newline>  <style>'' @
      css @
      lit ''</style>'' @
      lit ''\<newline></head>'' @
      lit ''\<newline><body>'' @
      lit ''\<newline>  <div class="container">'' @
      lit ''\<newline>    <div class="header">'' @
      lit ''\<newline>      <div>'' @
      lit ''\<newline>        <div class="name">'' @
      n @
      lit ''</div>'' @
      lit ''\<newline>        \<newline>      </div>'' @
      lit ''\<newline>      <div class="contact">'' @
      lit ''\<newline>        \<newline>        \<newline>        \<newline>        \<newline>        \<newline>      </div>'' @
      lit ''\<newline>    </div>'' @
      lit ''\<newline>\<newline>    \<newline>\<newline>    \<newline>\<newline>    \<newline>\<newline>    \<newline>\<newline>    \<newline>\<newline>    \<newline>\<newline>    <div style="margin-top:20px; font-size:12px; color:#888">Generated on '' @
      strftime now @
      lit ''</div>'' @
      lit ''\<newline>  </div>'' @
      lit ''\<newline></body>'' @
      lit ''\<newline></html>'' \<and>
   TEMPLATE1_render css (minimal_record n) =
      lit ''\<newline><!doctype html>'' @
      lit ''\<newline><html>'' @
      lit ''\<newline><head>'' @
      lit ''\<newline>  <meta charset="utf-8">'' @
      lit ''\<newline>  <meta name="viewport" content="width=device-width,initial-scale=1">'' @
      lit ''\<newline>  <title>'' @
      n @
      lit '' - Resume</title>'' @
      lit ''\<newline>  <style>'' @
      css @
      lit ''</style>'' @
      lit ''\<newline></head>'' @
      lit ''\<newline><body>'' @
      lit ''\<newline><div class="container">'' @
      lit ''\<newline>  <!-- Sidebar -->'' @
      lit ''\<newline>  <div class="sidebar">'' @
      lit ''\<newline>    <h2>Contact</h2>'' @
      lit ''\<newline>    \<newline>    \<newline>    \<newline>    \<newline>    \<newline>\<newline>    \<newline>\<newline>    \<newline>\<newline>    \<newline>  </div>'' @
      lit ''\<newline>\<newline>  <!-- Main Content -->'' @
      lit ''\<newline>  <div class="main">'' @
      lit ''\<newline>    <h1 class="name">'' @
      n @
      lit ''</h1>'' @
      lit ''\<newline>    \<newline>\<newline>    \<newline>\<newline>    \<newline>\<newline>    \<newline>  </div>'' @
      lit ''\<newline></div>'' @
      lit ''\<newline></body>'' @
      lit ''\<newline></html>''\<close>
proof (intro conjI)
  show \<open>prefix (lit ''\<newline>'' @ lit ''<!doctype html>'' @ lit ''\<newline>'' @ lit ''<html>'')
     (render_html now d css)\<close>
    unfolding render_html_def TEMPLATE_render_def
    by (((rule prefix_step)+)?, rule prefix_end)
  show \<open>sublist (lit ''<title>'' @ ResumeRecord.name d @ lit '' - Resume</title>'')
     (render_html now d css)\<close>
    unfolding render_html_def TEMPLATE_render_def
    by ((rule sublist_prefixI, ((rule prefix_step)+)?,
          (rule prefix_end | rule prefix_order.refl))
        | rule sublist_skip)+
  show \<open>suffix (lit ''</body>'' @ lit ''\<newline>'' @ lit ''</html>'') (render_html now d css)\<close>
    unfolding render_html_def TEMPLATE_render_def
    by (rule suffix_order.refl | rule suffix_skip)+
  show \<open>prefix (lit ''\<newline>'' @ lit ''<!doctype html>'' @ lit ''\<newline>'' @ lit ''<html>'')
     (TEMPLATE1_render css d)\<close>
    unfolding TEMPLATE1_render_def
    by (((rule prefix_step)+)?, rule prefix_end)
  show \<open>sublist (lit ''<title>'' @ ResumeRecord.name d @ lit '' - Resume</title>'')
     (TEMPLATE1_render css d)\<close>
    unfolding TEMPLATE1_render_def
    by ((rule sublist_prefixI, ((rule prefix_step)+)?,
          (rule prefix_end | rule prefix_order.refl))
        | rule sublist_skip)+
  show \<open>suffix (lit ''</body>'' @ lit ''\<newline>'' @ lit ''</html>'') (TEMPLATE1_render css d)\<close>
    unfolding TEMPLATE1_render_def
    by (rule suffix_order.refl | rule suffix_skip)+
  show \<open>render_html now (minimal_record n) css =
      lit ''\<newline><!doctype html>'' @
      lit ''\<newline><html>'' @
      lit ''\<newline><head>'' @
      lit ''\<newline>  <meta charset="utf-8">'' @
      lit ''\<newline>  <meta name="viewport" content="width=device-width,initial-scale=1">'' @
      lit ''\<newline>  <title>'' @
      n @
      lit '' - Resume</title>'' @
      lit ''\<newline>  <style>'' @
      css @
      lit ''</style>'' @
      lit ''\<newline></head>'' @
      lit ''\<newline><body>'' @
      lit ''\<newline>  <div class="container">'' @
      lit ''\<newline>    <div class="header">'' @
      lit ''\<newline>      <div>'' @
      lit ''\<newline>        <div class="name">'' @
      n @
      lit ''</div>'' @
      lit ''\<newline>        \<newline>      </div>'' @
      lit ''\<newline>      <div class="contact">'' @
      lit ''\<newline>        \<newline>        \<newline>        \<newline>        \<newline>        \<newline>      </div>'' @
      lit ''\<newline>    </div>'' @
      lit ''\<newline>\<newline>    \<newline>\<newline>    \<newline>\<newline>    \<newline>\<newline>    \<newline>\<newline>    \<newline>\<newline>    \<newline>\<newline>    <div style="margin-top:20px; font-size:12px; color:#888">Generated on '' @
      strftime now @
      lit ''</div>'' @
      lit ''\<newline>  </div>'' @
      lit ''\<newline></body>'' @
      lit ''\<newline></html>''\<close>
    by (simp add: render_html_def tpl_defs minimal_record_def truthy_def lit_def)
  show \<open>TEMPLATE1_render css (minimal_record n) =
      lit ''\<newline><!doctype html>'' @
      lit ''\<newline><html>'' @
      lit ''\<newline><head>'' @
      lit ''\<newline>  <meta charset="utf-8">'' @
      lit ''\<newline>  <meta name="viewport" content="width=device-width,initial-scale=1">'' @
      lit ''\<newline>  <title>'' @
      n @
      lit '' - Resume</title>'' @
      lit ''\<newline>  <style>'' @
      css @
      lit ''</style>'' @
      lit ''\<newline></head>'' @
      lit ''\<newline><body>'' @
      lit ''\<newline><div class="container">'' @
      lit ''\<newline>  <!-- Sidebar -->'' @
      lit ''\<newline>  <div class="sidebar">'' @
      lit ''\<newline>    <h2>Contact</h2>'' @
      lit ''\<newline>    \<newline>    \<newline>    \<newline>    \<newline>    \<newline>\<newline>    \<newline>\<newline>    \<newline>\<newline>    \<newline>  </div>'' @
      lit ''\<newline>\<newline>  <!-- Main Content -->'' @
      lit ''\<newline>  <div class="main">'' @
      lit ''\<newline>    <h1 class="name">'' @
      n @
      lit ''</h1>'' @
      lit ''\<newline>    \<newline>\<newline>    \<newline>\<newline>    \<newline>\<newline>    \<newline>  </div>'' @
      lit ''\<newline></div>'' @
      lit ''\<newline></body>'' @
      lit ''\<newline></html>''\<close>
    by (simp add: tpl1_defs minimal_record_def truthy_def lit_def)
qed (simp_all add: tpl_defs minimal_record_def truthy_def)

theorem minimal_page_witness:
  \<open>sublist (lit ''<title>Jane Doe - Resume</title>'')
     (render_html sample_time (minimal_record (lit ''Jane Doe'')) CSS) \<and>
   sublist (lit ''<title>Jane Doe - Resume</title>'')
     (TEMPLATE1_render CSS1 (minimal_record (lit ''Jane Doe''))) \<and>
   summary_section (minimal_record (lit ''Jane Doe'')) = [] \<and>
   render_html sample_time (minimal_record (lit ''Jane Doe'')) CSS =
      lit ''\<newline><!doctype html>'' @
      lit ''\<newline><html>'' @
      lit ''\<newline><head>'' @
      lit ''\<newline>  <meta charset="utf-8">'' @
      lit ''\<newline>  <meta name="viewport" content="width=device-width,initial-scale=1">'' @
      lit ''\<newline>  <title>'' @
      lit ''Jane Doe'' @
      lit '' - Resume</title>'' @
      lit ''\<newline>  <style>'' @
      CSS @
      lit ''</style>'' @
      lit ''\<newline></head>'' @
      lit ''\<newline><body>'' @
      lit ''\<newline>  <div class="container">'' @
      lit ''\<newline>    <div class="header">'' @
      lit ''\<newline>      <div>'' @
      lit ''\<newline>        <div class="name">'' @
      lit ''Jane Doe'' @
      lit ''</div>'' @
      lit ''\<newline>        \<newline>      </div>'' @
      lit ''\<newline>      <div class="contact">'' @
      lit ''\<newline>        \<newline>        \<newline>        \<newline>        \<newline>        \<newline>      </div>'' @
      lit ''\<newline>    </div>'' @
      lit ''\<newline>\<newline>    \<newline>\<newline>    \<newline>\<newline>    \<newline>\<newline>    \<newline>\<newline>    \<newline>\<newline>    \<newline>\<newline>    <div style="margin-top:20px; font-size:12px; color:#888">Generated on '' @
      strftime sample_time @
      lit ''</div>'' @
      lit ''\<newline>  </div>'' @
      lit ''\<newline></body>'' @
      lit ''\<newline></html>''\<close>
proof -
  have n: "ResumeRecord.name (minimal_record (lit ''Jane Doe'')) = lit ''Jane Doe''"
    by (simp add: minimal_record_def)
  have l: "lit ''<title>'' @ lit ''Jane Doe'' @ lit '' - Resume</title>'' =
      lit ''<title>Jane Doe - Resume</title>''"
    by (simp add: lit_def)
  note a = minimal_page[of sample_time "minimal_record (lit ''Jane Doe'')" CSS "lit ''Jane Doe''"]
  note b = minimal_page[of sample_time "minimal_record (lit ''Jane Doe'')" CSS1 "lit ''Jane Doe''"]
  from a have 1: "sublist (lit ''<title>'' @ lit ''Jane Doe'' @ lit '' - Resume</title>'')
      (render_html sample_time (minimal_record (lit ''Jane Doe'')) CSS)"
    unfolding n by blast
  from b have 2: "sublist (lit ''<title>'' @ lit ''Jane Doe'' @ lit '' - Resume</title>'')
      (TEMPLATE1_render CSS1 (minimal_record (lit ''Jane Doe'')))"
    unfolding n by blast
  from a have 3: "summary_section (minimal_record (lit ''Jane Doe'')) = []" by blast
  from a have 4: \<open>render_html sample_time (minimal_record (lit ''Jane Doe'')) CSS =
      lit ''\<newline><!doctype html>'' @
      lit ''\<newline><html>'' @
      lit ''\<newline><head>'' @
      lit ''\<newline>  <meta charset="utf-8">'' @
      lit ''\<newline>  <meta name="viewport" content="width=device-width,initial-scale=1">'' @
      lit ''\<newline>  <title>'' @
      lit ''Jane Doe'' @
      lit '' - Resume</title>'' @
      lit ''\<newline>  <style>'' @
      CSS @
      lit ''</style>'' @
      lit ''\<newline></head>'' @
      lit ''\<newline><body>'' @
      lit ''\<newline>  <div class="container">'' @
      lit ''\<newline>    <div class="header">'' @
      lit ''\<newline>      <div>'' @
      lit ''\<newline>        <div class="name">'' @
      lit ''Jane Doe'' @
      lit ''</div>'' @
      lit ''\<newline>        \<newline>      </div>'' @
      lit ''\<newline>      <div class="contact">'' @
      lit ''\<newline>        \<newline>        \<newline>        \<newline>        \<newline>        \<newline>      </div>'' @
      lit ''\<newline>    </div>'' @
      lit ''\<newline>\<newline>    \<newline>\<newline>    \<newline>\<newline>    \<newline>\<newline>    \<newline>\<newline>    \<newline>\<newline>    \<newline>\<newline>    <div style="margin-top:20px; font-size:12px; color:#888">Generated on '' @
      strftime sample_time @
      lit ''</div>'' @
      lit ''\<newline>  </div>'' @
      lit ''\<newline></body>'' @
      lit ''\<newline></html>''\<close>
    by blast
  from 1 2 3 4 show ?thesis unfolding l by blast
qed

end
